theory Spec2Isabelle
  imports Complex_Main
begin

section \<open>The AIMMee simulation objects (src/AIMMee/AIMMee.py)\<close>

text \<open>
  The theory embeds the topology and registry code of \<^verbatim>\<open>AIMMee.py\<close>: the classes
  \<^verbatim>\<open>Sim\<close>, \<^verbatim>\<open>SimObject\<close> and its subclasses. Conventions:
  \<^item> \<^verbatim>\<open>self.guid = id(self)\<close>: the identity of an object is supplied by the Python
    runtime; every constructor of the model takes it as the argument \<open>self_id\<close>.
  \<^item> A reference to a simulation object is represented by the two attributes that are
    assigned once in \<^verbatim>\<open>SimObject.__init__\<close> and never again, \<^verbatim>\<open>guid\<close> and
    \<^verbatim>\<open>class_name\<close> (record \<open>node_ref\<close>); these are all that the topology code
    reads through a reference.
  \<^item> An attribute that an object may lack when it is read (\<^verbatim>\<open>_power_model\<close>,
    \<^verbatim>\<open>_sim\<close>, \<^verbatim>\<open>_guid\<close>, \<^verbatim>\<open>cu\<close>) is an optional field; reading it while it is
    unset is Python's \<^verbatim>\<open>AttributeError\<close>.
  \<^item> A method that mutates the simulation returns its outcome together with the
    simulation as it is afterwards, also when it raises: mutations made before a
    \<^verbatim>\<open>raise\<close> stay.
  \<^item> Python floats are idealised as reals. \<^verbatim>\<open>print\<close> calls, the display attributes
    \<^verbatim>\<open>idx\<close> and \<^verbatim>\<open>label\<close>, positions (\<^verbatim>\<open>xyz\<close>) and the attributes owned by the
    base classes of the external AIMM simulator are not modelled.
\<close>

subsection \<open>Data\<close>

type_synonym guid = int
type_synonym class_name = string

datatype error = ValueError | KeyError | AttributeError | ZeroDivisionError | PyException

text \<open>Values offered to the \<^verbatim>\<open>power_model\<close> setter: \<^verbatim>\<open>None\<close>, a number, a callable, or
  anything else.\<close>

datatype power_value = PNone | PNum real | PCallable "real \<Rightarrow> real" | POther

record node_ref =
  guid :: guid
  class_name :: class_name

record sim_object = node_ref +
  interval :: real
  priv_power_model :: "power_value option"
  has_priv_sim :: bool
  priv_guid :: "guid option"

type_synonym topology_t = "class_name \<rightharpoonup> (guid \<rightharpoonup> guid list)"

record sim =
  topology :: topology_t
  guid_map :: "guid \<rightharpoonup> node_ref"
  cells :: "node_ref list"
  UEs :: "node_ref list"
  raps :: "node_ref list"
  rus :: "node_ref list"
  rrhs :: "node_ref list"

definition as_ref :: "'a node_ref_scheme \<Rightarrow> node_ref" where
  "as_ref x = \<lparr>guid = guid x, class_name = class_name x\<rparr>"

text \<open>\<^verbatim>\<open>Sim.__init__\<close>: \<^verbatim>\<open>set_sim_topology\<close>, \<^verbatim>\<open>set_guid_map\<close> and the empty object lists.\<close>

definition Sim_init :: sim where
  "Sim_init = \<lparr>topology = Map.empty, guid_map = Map.empty, cells = [], UEs = [],
     raps = [], rus = [], rrhs = []\<rparr>"

subsection \<open>The topology dictionary\<close>

text \<open>\<^verbatim>\<open>topology[c][g]\<close>; \<open>None\<close> stands for \<^verbatim>\<open>KeyError\<close>.\<close>

definition topo_get :: "topology_t \<Rightarrow> class_name \<Rightarrow> guid \<Rightarrow> guid list option" where
  "topo_get t c g = (case t c of None \<Rightarrow> None | Some d \<Rightarrow> d g)"

text \<open>The list object stored at \<^verbatim>\<open>topology[c][g]\<close> is mutated in place; the model stores
  the list as it is after the mutation.\<close>

definition topo_set :: "topology_t \<Rightarrow> class_name \<Rightarrow> guid \<Rightarrow> guid list \<Rightarrow> topology_t" where
  "topo_set t c g l = (case t c of None \<Rightarrow> t | Some d \<Rightarrow> t(c \<mapsto> d(g \<mapsto> l)))"

subsection \<open>SimObject\<close>

text \<open>\<^verbatim>\<open>add_to_sim\<close>: two nested \<^verbatim>\<open>setdefault\<close> calls on the topology and one on the GUID
  map. The \<^verbatim>\<open>ValueError\<close> of the source is raised for an argument that is not a
  \<^verbatim>\<open>Sim\<close>; the argument of the model is one.\<close>

definition add_to_sim :: "'a node_ref_scheme \<Rightarrow> sim \<Rightarrow> (error + unit) \<times> sim" where
  "add_to_sim self s =
     (let d = (case topology s (class_name self) of None \<Rightarrow> Map.empty | Some d \<Rightarrow> d);
          d' = (case d (guid self) of None \<Rightarrow> d(guid self \<mapsto> []) | Some l \<Rightarrow> d);
          m' = (case guid_map s (guid self) of
                  None \<Rightarrow> (guid_map s)(guid self \<mapsto> as_ref self)
                | Some n \<Rightarrow> guid_map s)
      in (Inr (), s\<lparr>topology := (topology s)(class_name self \<mapsto> d'), guid_map := m'\<rparr>))"

text \<open>\<^verbatim>\<open>SimObject.__init__\<close>. \<open>cls\<close> is \<^verbatim>\<open>self.__class__.__name__\<close>; \<open>pre_interval\<close> is
  the value of \<^verbatim>\<open>self.interval\<close> when a subclass has assigned it before calling
  \<^verbatim>\<open>super().__init__\<close> (the \<^verbatim>\<open>hasattr\<close> test).\<close>

definition SimObject_init ::
  "guid \<Rightarrow> class_name \<Rightarrow> real option \<Rightarrow> sim \<Rightarrow> sim_object \<times> sim" where
  "SimObject_init self_id cls pre_interval s =
     (let self = \<lparr>guid = self_id, class_name = cls,
                  interval = (case pre_interval of Some i \<Rightarrow> i | None \<Rightarrow> 0),
                  priv_power_model = None, has_priv_sim = False, priv_guid = None\<rparr>
      in (self, snd (add_to_sim self s)))"

text \<open>\<^verbatim>\<open>register_link\<close>. Both lists are looked up before either is changed. When
  \<open>self\<close> and \<open>other\<close> have the same key the two names denote one list object, so the
  second test sees the first append.\<close>

definition register_link ::
  "'a node_ref_scheme \<Rightarrow> 'b node_ref_scheme \<Rightarrow> sim \<Rightarrow> (error + unit) \<times> sim" where
  "register_link self other s =
     (case topo_get (topology s) (class_name self) (guid self) of
        None \<Rightarrow> (Inl KeyError, s)
      | Some self_links_list \<Rightarrow>
         (case topo_get (topology s) (class_name other) (guid other) of
            None \<Rightarrow> (Inl KeyError, s)
          | Some other_links0 \<Rightarrow>
             (let self_links' = (if guid other \<notin> set self_links_list
                                 then self_links_list @ [guid other] else self_links_list);
                  other_links_list = (if class_name other = class_name self \<and> guid other = guid self
                                      then self_links' else other_links0);
                  other_links' = (if guid self \<notin> set other_links_list
                                  then other_links_list @ [guid self] else other_links_list);
                  t1 = topo_set (topology s) (class_name self) (guid self) self_links';
                  t2 = topo_set t1 (class_name other) (guid other) other_links'
              in (Inr (), s\<lparr>topology := t2\<rparr>))))"

text \<open>\<^verbatim>\<open>deregister_link\<close>, statement by statement. It reads \<^verbatim>\<open>self._sim\<close>,
  \<^verbatim>\<open>other._sim\<close> and \<^verbatim>\<open>self._guid\<close>; \<^verbatim>\<open>list.remove\<close> raises \<^verbatim>\<open>ValueError\<close> when the
  element is absent.\<close>

definition deregister_link ::
  "'a sim_object_scheme \<Rightarrow> 'b sim_object_scheme \<Rightarrow> sim \<Rightarrow> (error + unit) \<times> sim" where
  "deregister_link self other s =
     (if \<not> has_priv_sim self then (Inl AttributeError, s)
      else case topo_get (topology s) (class_name self) (guid self) of
        None \<Rightarrow> (Inl KeyError, s)
      | Some self_links \<Rightarrow>
         (if \<not> has_priv_sim other then (Inl AttributeError, s)
          else case topo_get (topology s) (class_name other) (guid other) of
            None \<Rightarrow> (Inl KeyError, s)
          | Some other_links0 \<Rightarrow>
             (let self_links' = (if guid other \<in> set self_links
                                 then remove1 (guid other) self_links else self_links);
                  t1 = topo_set (topology s) (class_name self) (guid self) self_links';
                  other_links = (if class_name other = class_name self \<and> guid other = guid self
                                 then self_links' else other_links0)
              in case priv_guid self of
                   None \<Rightarrow> (Inl AttributeError, s\<lparr>topology := t1\<rparr>)
                 | Some g' \<Rightarrow>
                    (if g' \<in> set other_links
                     then (if guid self \<in> set other_links
                           then (Inr (), s\<lparr>topology := topo_set t1 (class_name other) (guid other)
                                                          (remove1 (guid self) other_links)\<rparr>)
                           else (Inl ValueError, s\<lparr>topology := t1\<rparr>))
                     else (Inr (), s\<lparr>topology := t1\<rparr>)))))"

text \<open>The \<^verbatim>\<open>power_model\<close> property: getter and setter.\<close>

definition power_model :: "'a sim_object_scheme \<Rightarrow> error + power_value" where
  "power_model self =
     (case priv_power_model self of
        None \<Rightarrow> Inl AttributeError
      | Some PNone \<Rightarrow> Inr PNone
      | Some v \<Rightarrow> Inr v)"

definition power_model_setter ::
  "'a sim_object_scheme \<Rightarrow> power_value \<Rightarrow> error + 'a sim_object_scheme" where
  "power_model_setter self new_power_model =
     (case new_power_model of
        PNum x \<Rightarrow> Inr (self\<lparr>priv_power_model := Some new_power_model\<rparr>)
      | PCallable f \<Rightarrow> Inr (self\<lparr>priv_power_model := Some new_power_model\<rparr>)
      | PNone \<Rightarrow> Inl ValueError
      | POther \<Rightarrow> Inl ValueError)"

text \<open>The \<^verbatim>\<open>loop\<close> generator of \<^verbatim>\<open>RadioAccessPoint\<close>, \<^verbatim>\<open>RadioUnit\<close>,
  \<^verbatim>\<open>DistributedUnit\<close>, \<^verbatim>\<open>CentralisedUnit\<close>, \<^verbatim>\<open>RemoteRadioHead\<close> and
  \<^verbatim>\<open>AntennaPanel\<close> (the same text in each class):
  \<^verbatim>\<open>while True: yield self.sim.env.timeout(self.interval)\<close>.
  One iteration hands a timeout of \<open>interval self\<close> to the scheduler, which resumes the
  generator when the clock has advanced by it. The generator never returns; \<open>loop n\<close> is
  its first \<open>n\<close> iterations, started at clock value \<open>now\<close>.\<close>

definition loop_body :: "'a sim_object_scheme \<Rightarrow> sim \<Rightarrow> real \<times> 'a sim_object_scheme \<times> sim" where
  "loop_body self s = (interval self, self, s)"

fun loop :: "nat \<Rightarrow> 'a sim_object_scheme \<Rightarrow> sim \<Rightarrow> real \<Rightarrow> 'a sim_object_scheme \<times> sim \<times> real" where
  "loop 0 self s now = (self, s, now)"
| "loop (Suc n) self s now =
     (case loop_body self s of (dt, self', s') \<Rightarrow> loop n self' s' (now + dt))"

subsection \<open>AIMMeeCell and AIMMeeUE\<close>

text \<open>Both classes run \<^verbatim>\<open>SimObject.__init__\<close> and then the constructor of their base
  class in the external AIMM simulator, which knows nothing of \<^verbatim>\<open>guid\<close>, the topology
  or the GUID map. A new UE is not attached: \<open>serving_cell\<close> is \<open>None\<close> until one of the
  external attach methods assigns it.\<close>

record aimmee_cell = sim_object +
  radius :: real

record aimmee_ue = sim_object +
  last_cell_guid :: "guid option"
  current_cell_guid :: "guid option"
  serving_cell :: "node_ref option"

definition AIMMeeCell_init :: "guid \<Rightarrow> sim \<Rightarrow> aimmee_cell \<times> sim" where
  "AIMMeeCell_init self_id s =
     (case SimObject_init self_id ''AIMMeeCell'' None s of
        (b, s1) \<Rightarrow> (sim_object.extend b (aimmee_cell.fields 0), s1))"

definition AIMMeeUE_init :: "guid \<Rightarrow> sim \<Rightarrow> aimmee_ue \<times> sim" where
  "AIMMeeUE_init self_id s =
     (case SimObject_init self_id ''AIMMeeUE'' None s of
        (b, s1) \<Rightarrow> (sim_object.extend b (aimmee_ue.fields None None None), s1))"

definition update_cell_guid :: "aimmee_ue \<Rightarrow> error + aimmee_ue" where
  "update_cell_guid self =
     (case serving_cell self of
        None \<Rightarrow> Inl AttributeError
      | Some c \<Rightarrow>
         (if Some (guid c) = current_cell_guid self then Inr self
          else Inr (self\<lparr>last_cell_guid := current_cell_guid self,
                          current_cell_guid := Some (guid c)\<rparr>)))"

text \<open>\<^verbatim>\<open>while x in l: l.remove(x)\<close>\<close>

function remove_while :: "'a \<Rightarrow> 'a list \<Rightarrow> 'a list" where
  "remove_while x l = (if x \<in> set l then remove_while x (remove1 x l) else l)"
  by pat_completeness auto
termination
proof (relation "measure (\<lambda>(x, l). length l)")
  show "wf (measure (\<lambda>(x, l). length l))" by simp
next
  fix x :: 'a and l :: "'a list"
  assume "x \<in> set l"
  then have "0 < length l" by (rule length_pos_if_in_set)
  with \<open>x \<in> set l\<close> show "((x, remove1 x l), (x, l)) \<in> measure (\<lambda>(x, l). length l)"
    by (simp add: length_remove1)
qed

text \<open>\<^verbatim>\<open>update_ue_topology\<close>, in its two halves: the removal from the last cell (run when
  \<^verbatim>\<open>last_cell_guid\<close> is not \<^verbatim>\<open>None\<close>) and the addition to the current cell. A
  subscript with a key that the dictionary lacks (also \<^verbatim>\<open>None\<close>) raises
  \<^verbatim>\<open>KeyError\<close>. The test \<^verbatim>\<open>self.guid == None\<close> is never true: \<open>guid\<close> is an integer.\<close>

definition remove_from_last_cell :: "guid \<Rightarrow> guid \<Rightarrow> topology_t \<Rightarrow> (error + unit) \<times> topology_t" where
  "remove_from_last_cell u l t =
     (case topo_get t ''AIMMeeCell'' l of
        None \<Rightarrow> (Inl KeyError, t)
      | Some cell_links \<Rightarrow>
         (let t1 = topo_set t ''AIMMeeCell'' l (remove_while u cell_links)
          in case topo_get t1 ''AIMMeeUE'' u of
               None \<Rightarrow> (Inl KeyError, t1)
             | Some ue_links \<Rightarrow> (Inr (), topo_set t1 ''AIMMeeUE'' u (remove_while l ue_links))))"

definition add_to_current_cell ::
  "guid \<Rightarrow> guid option \<Rightarrow> topology_t \<Rightarrow> (error + unit) \<times> topology_t" where
  "add_to_current_cell u cur t =
     (case cur of
        None \<Rightarrow> (Inl KeyError, t)
      | Some c \<Rightarrow>
         (case topo_get t ''AIMMeeCell'' c of
            None \<Rightarrow> (Inl KeyError, t)
          | Some cell_links \<Rightarrow>
             (let t1 = (if u \<notin> set cell_links
                        then topo_set t ''AIMMeeCell'' c (cell_links @ [u]) else t)
              in case topo_get t1 ''AIMMeeUE'' u of
                   None \<Rightarrow> (Inl KeyError, t1)
                 | Some ue_links \<Rightarrow>
                    (Inr (), if c \<notin> set ue_links
                             then topo_set t1 ''AIMMeeUE'' u (ue_links @ [c]) else t1))))"

definition update_ue_topology :: "aimmee_ue \<Rightarrow> sim \<Rightarrow> (error + unit) \<times> sim" where
  "update_ue_topology self s =
     (if last_cell_guid self \<noteq> current_cell_guid self
      then (case (case last_cell_guid self of
                    None \<Rightarrow> (Inr (), topology s)
                  | Some l \<Rightarrow> remove_from_last_cell (guid self) l (topology s)) of
              (Inl e, t1) \<Rightarrow> (Inl e, s\<lparr>topology := t1\<rparr>)
            | (Inr u, t1) \<Rightarrow>
               (case add_to_current_cell (guid self) (current_cell_guid self) t1 of
                  (r, t2) \<Rightarrow> (r, s\<lparr>topology := t2\<rparr>)))
      else (Inr (), s))"

text \<open>One iteration of \<^verbatim>\<open>AIMMeeUE.loop\<close>. The callback and the two report methods belong
  to the external simulator; the serving cell seen by the iteration is the one held in
  \<open>serving_cell\<close> when \<^verbatim>\<open>update_cell_guid\<close> runs.\<close>

definition AIMMeeUE_loop_body :: "aimmee_ue \<Rightarrow> sim \<Rightarrow> (error + unit) \<times> aimmee_ue \<times> sim" where
  "AIMMeeUE_loop_body self s =
     (case update_cell_guid self of
        Inl e \<Rightarrow> (Inl e, self, s)
      | Inr self' \<Rightarrow>
         (case update_ue_topology self' s of (r, s') \<Rightarrow> (r, self', s')))"

subsection \<open>RadioAccessPoint and RadioUnit\<close>

record radio_access_point = sim_object +
  rap_cell :: "node_ref option"
  at_cell_centre :: bool

record radio_unit = sim_object +
  ru_cell :: "node_ref option"
  ru_rap :: "node_ref option"
  ru_du :: "node_ref option"

text \<open>\<^verbatim>\<open>RadioAccessPoint.__init__\<close>: after the link to the cell the constructor calls
  \<^verbatim>\<open>self.cell.get_xyz()\<close>, which raises \<^verbatim>\<open>AttributeError\<close> when \<open>cell\<close> is \<^verbatim>\<open>None\<close>.\<close>

definition RadioAccessPoint_init ::
  "guid \<Rightarrow> node_ref option \<Rightarrow> bool \<Rightarrow> real \<Rightarrow> sim \<Rightarrow> (error + radio_access_point) \<times> sim" where
  "RadioAccessPoint_init self_id cell centre ival s =
     (case SimObject_init self_id ''RadioAccessPoint'' (Some ival) s of
        (b, s1) \<Rightarrow>
         (let self = sim_object.extend b (radio_access_point.fields cell centre)
          in case cell of
               None \<Rightarrow> (Inl AttributeError, s1)
             | Some c \<Rightarrow>
                (case register_link self c s1 of
                   (Inl e, s2) \<Rightarrow> (Inl e, s2)
                 | (Inr u, s2) \<Rightarrow> (Inr self, s2))))"

text \<open>\<^verbatim>\<open>RadioUnit.__init__\<close> assigns \<^verbatim>\<open>self.du = None\<close> whatever its \<open>du\<close> argument is, so
  the third link is never made.\<close>

definition RadioUnit_init ::
  "guid \<Rightarrow> node_ref option \<Rightarrow> node_ref option \<Rightarrow> node_ref option \<Rightarrow> real \<Rightarrow> sim
     \<Rightarrow> (error + radio_unit) \<times> sim" where
  "RadioUnit_init self_id cell rap du ival s =
     (case SimObject_init self_id ''RadioUnit'' (Some ival) s of
        (b, s1) \<Rightarrow>
         (let self = sim_object.extend b (radio_unit.fields cell rap None)
          in case (case cell of None \<Rightarrow> (Inr (), s1) | Some c \<Rightarrow> register_link self c s1) of
               (Inl e, s2) \<Rightarrow> (Inl e, s2)
             | (Inr u, s2) \<Rightarrow>
                (case (case rap of None \<Rightarrow> (Inr (), s2) | Some r \<Rightarrow> register_link self r s2) of
                   (Inl e, s3) \<Rightarrow> (Inl e, s3)
                 | (Inr u, s3) \<Rightarrow> (Inr self, s3))))"

text \<open>\<^verbatim>\<open>RadioAccessPoint.make_RadioUnit\<close>\<close>

definition RAP_make_RadioUnit ::
  "radio_access_point \<Rightarrow> guid \<Rightarrow> node_ref option \<Rightarrow> node_ref option \<Rightarrow> real \<Rightarrow> sim
     \<Rightarrow> (error + radio_unit) \<times> sim" where
  "RAP_make_RadioUnit self new_id rap du ival s =
     (case RadioUnit_init new_id (rap_cell self) rap du ival s of
        (Inl e, s1) \<Rightarrow> (Inl e, s1)
      | (Inr new_object, s1) \<Rightarrow>
         (case register_link self new_object s1 of
            (Inl e, s2) \<Rightarrow> (Inl e, s2)
          | (Inr u, s2) \<Rightarrow> (Inr new_object, s2)))"

subsection \<open>DistributedUnit and CentralisedUnit\<close>

record distributed_unit = sim_object +
  power_consumption :: real
  p_load :: real
  du_rrh :: "node_ref option"

record centralised_unit = sim_object +
  cu_du :: "distributed_unit option"
  cu_cu :: "node_ref option"

text \<open>The keyword arguments of \<^verbatim>\<open>example_DU_power_model\<close> and their default values.\<close>

record du_power_args =
  P_supply_max :: real
  n_cpu :: real
  P_cpu :: real
  ram_GB :: real
  P_ram_GB :: real
  n_gpu :: real
  P_gpu :: real
  n_accel :: real
  P_accel :: real
  n_asic :: real
  P_asic :: real
  n_nic :: real
  P_nic :: real

definition du_power_defaults :: du_power_args where
  "du_power_defaults =
     \<lparr>P_supply_max = 2100, n_cpu = 2, P_cpu = 90, ram_GB = 384, P_ram_GB = 0.375,
      n_gpu = 0, P_gpu = 0, n_accel = 1, P_accel = 52, n_asic = 1, P_asic = 23,
      n_nic = 3, P_nic = 75\<rparr>"

definition example_DU_power_model ::
  "distributed_unit \<Rightarrow> du_power_args \<Rightarrow> (error + real) \<times> distributed_unit" where
  "example_DU_power_model self a =
     (let pc = n_cpu a * P_cpu a + ram_GB a * P_ram_GB a + n_gpu a * P_gpu a
               + n_accel a * P_accel a + n_asic a * P_asic a + n_nic a * P_nic a;
          self1 = self\<lparr>power_consumption := pc\<rparr>
      in if P_supply_max a = 0 then (Inl ZeroDivisionError, self1)
         else (Inr pc, self1\<lparr>p_load := pc / P_supply_max a\<rparr>))"

text \<open>\<^verbatim>\<open>DistributedUnit.__init__\<close>. The attributes \<^verbatim>\<open>power_consumption\<close> and
  \<^verbatim>\<open>p_load\<close> are first assigned by the call of \<^verbatim>\<open>example_DU_power_model\<close>.\<close>

definition DistributedUnit_init :: "guid \<Rightarrow> sim \<Rightarrow> (error + distributed_unit) \<times> sim" where
  "DistributedUnit_init self_id s =
     (case SimObject_init self_id ''DistributedUnit'' None s of
        (b, s1) \<Rightarrow>
         (case example_DU_power_model
                 (sim_object.extend b (distributed_unit.fields 0 0 None)) du_power_defaults of
            (Inl e, self1) \<Rightarrow> (Inl e, s1)
          | (Inr pc, self1) \<Rightarrow>
             (case power_model_setter self1 (PNum pc) of
                Inl e \<Rightarrow> (Inl e, s1)
              | Inr self2 \<Rightarrow> (Inr self2, s1))))"

text \<open>The float-valued instance attributes of a DistributedUnit, by name (the entries of
  \<^verbatim>\<open>vars(self)\<close> that hold a float).\<close>

definition float_attributes :: "distributed_unit \<Rightarrow> (string \<times> real) list" where
  "float_attributes self =
     [(''interval'', interval self)]
     @ (case priv_power_model self of Some (PNum x) \<Rightarrow> [(''_power_model'', x)] | _ \<Rightarrow> [])
     @ [(''power_consumption'', power_consumption self), (''p_load'', p_load self)]"

definition attach_to_rrh ::
  "distributed_unit \<Rightarrow> node_ref \<Rightarrow> sim \<Rightarrow> (error + unit) \<times> distributed_unit \<times> sim" where
  "attach_to_rrh self rrh s =
     (let self1 = self\<lparr>du_rrh := Some rrh\<rparr>
      in case register_link self1 rrh s of (r, s1) \<Rightarrow> (r, self1, s1))"

definition example_CU_power_model :: "real \<Rightarrow> real" where
  "example_CU_power_model du_load = (1 - du_load) * 656.25"

definition CentralisedUnit_init :: "guid \<Rightarrow> sim \<Rightarrow> (error + centralised_unit) \<times> sim" where
  "CentralisedUnit_init self_id s =
     (case SimObject_init self_id ''CentralisedUnit'' None s of
        (b, s1) \<Rightarrow>
         (case power_model_setter (sim_object.extend b (centralised_unit.fields None None))
                 (PNum (example_CU_power_model 0)) of
            Inl e \<Rightarrow> (Inl e, s1)
          | Inr self1 \<Rightarrow> (Inr self1, s1)))"

text \<open>\<^verbatim>\<open>attach_to_du\<close> stores the unit in \<^verbatim>\<open>self.du\<close> and then links \<^verbatim>\<open>self.cu\<close>.\<close>

definition attach_to_du ::
  "centralised_unit \<Rightarrow> distributed_unit \<Rightarrow> sim \<Rightarrow> (error + unit) \<times> centralised_unit \<times> sim" where
  "attach_to_du self du s =
     (let self1 = self\<lparr>cu_du := Some du\<rparr>
      in case cu_cu self1 of
           None \<Rightarrow> (Inl AttributeError, self1, s)
         | Some c \<Rightarrow> (case register_link self1 c s of (r, s1) \<Rightarrow> (r, self1, s1)))"

subsection \<open>RemoteRadioHead and AntennaPanel\<close>

text \<open>The RF-port dictionary has the keys \<^verbatim>\<open>port[0]\<close>, \<^verbatim>\<open>port[1]\<close> and so on in insertion
  order, each with a dictionary of its own: a list of records, the key \<^verbatim>\<open>port[i]\<close> at
  index \<open>i\<close>.

  The fronthaul dictionary maps every key \<^verbatim>\<open>fh_port[i]\<close> to one and the same dictionary
  object, the one bound to \<^verbatim>\<open>_default_port_params\<close>. To keep that sharing, the
  parameter dictionaries reachable from the two attributes live in a store of the
  RemoteRadioHead (\<open>port_store\<close>, from locations to records) and the attributes hold
  locations; the key \<^verbatim>\<open>fh_port[i]\<close> is represented by \<open>i\<close>.\<close>

record rf_port =
  antenna_panel :: "node_ref option"
  rf_output_max_watts :: real
  rf_output_watts :: real

record port_params =
  protocol :: string
  data_rate_Gbps :: real
  data_rate_Gbps_max :: real

text \<open>The dictionary passed as \<^verbatim>\<open>fronthaul_ports\<close>, unpacked into the arguments of
  \<^verbatim>\<open>make_fronthaul_ports\<close>.\<close>

record fronthaul_arg =
  arg_n_ports :: int
  arg_protocol :: string
  arg_data_rate_Gbps_max :: real

record remote_radio_head = sim_object +
  rrh_cell :: "node_ref option"
  rrh_rap :: "radio_access_point option"
  rrh_ru :: "node_ref option"
  rrh_du :: "node_ref option"
  n_rf_ports :: int
  rf_ports :: "rf_port list"
  port_store :: "nat \<rightharpoonup> port_params"
  priv_default_port_params :: nat
  priv_fronthaul_ports :: "int \<rightharpoonup> nat"

type_synonym antenna_panel_t = sim_object

definition make_rf_ports :: "int \<Rightarrow> rf_port list" where
  "make_rf_ports n =
     map (\<lambda>i. \<lparr>antenna_panel = None, rf_output_max_watts = 20, rf_output_watts = 0\<rparr>) [0..<nat n]"

definition make_fronthaul_ports ::
  "remote_radio_head \<Rightarrow> int \<Rightarrow> string \<Rightarrow> real \<Rightarrow> remote_radio_head" where
  "make_fronthaul_ports self n prot rate_max =
     self\<lparr>port_store := [0 \<mapsto> \<lparr>protocol = prot, data_rate_Gbps = 0, data_rate_Gbps_max = 10\<rparr>],
          priv_default_port_params := 0,
          priv_fronthaul_ports := (\<lambda>i. if 0 \<le> i \<and> i < n then Some 0 else None)\<rparr>"

text \<open>\<^verbatim>\<open>get_fronthaul_port\<close> returns the dictionary object itself, here its location.\<close>

definition get_fronthaul_port :: "remote_radio_head \<Rightarrow> string \<Rightarrow> int \<Rightarrow> error + nat" where
  "get_fronthaul_port self prot i =
     (case priv_fronthaul_ports self i of None \<Rightarrow> Inl KeyError | Some r \<Rightarrow> Inr r)"

text \<open>\<^verbatim>\<open>RemoteRadioHead.__init__\<close>. \<^verbatim>\<open>self.du = None\<close> is assigned whatever the \<open>du\<close>
  argument is. \<^verbatim>\<open>register_link(self.cell)\<close> raises \<^verbatim>\<open>ValueError\<close> when the access point
  has no cell.\<close>

definition RemoteRadioHead_init ::
  "guid \<Rightarrow> radio_access_point option \<Rightarrow> node_ref option \<Rightarrow> node_ref option \<Rightarrow> int
     \<Rightarrow> fronthaul_arg \<Rightarrow> sim \<Rightarrow> (error + remote_radio_head) \<times> sim" where
  "RemoteRadioHead_init self_id rap ru du n fh s =
     (case SimObject_init self_id ''RemoteRadioHead'' None s of
        (b, s1) \<Rightarrow>
         (let self0 = sim_object.extend b
                        (remote_radio_head.fields None rap ru None n
                           (if n > 0 then make_rf_ports n else make_rf_ports 2)
                           Map.empty 0 Map.empty);
              self1 = make_fronthaul_ports self0 (arg_n_ports fh) (arg_protocol fh)
                        (arg_data_rate_Gbps_max fh);
              self2 = (case rap of None \<Rightarrow> self1 | Some r \<Rightarrow> self1\<lparr>rrh_cell := rap_cell r\<rparr>)
          in case (case rap of
                     None \<Rightarrow> (Inr (), s1)
                   | Some r \<Rightarrow>
                      (case rap_cell r of
                         None \<Rightarrow> (Inl ValueError, s1)
                       | Some c \<Rightarrow> register_link self2 c s1)) of
               (Inl e, s2) \<Rightarrow> (Inl e, s2)
             | (Inr u, s2) \<Rightarrow>
                (case (case ru of None \<Rightarrow> (Inr (), s2) | Some r \<Rightarrow> register_link self2 r s2) of
                   (Inl e, s3) \<Rightarrow> (Inl e, s3)
                 | (Inr u, s3) \<Rightarrow> (Inr self2, s3))))"

definition AntennaPanel_init :: "guid \<Rightarrow> sim \<Rightarrow> antenna_panel_t \<times> sim" where
  "AntennaPanel_init self_id s = SimObject_init self_id ''AntennaPanel'' None s"

text \<open>The \<^verbatim>\<open>for\<close> loop of \<^verbatim>\<open>make_AntennaPanel\<close>. Its body ends with \<^verbatim>\<open>break\<close> when the
  port is free and with \<^verbatim>\<open>raise Exception\<close> otherwise, so no iteration is followed by
  another; an empty dictionary ends the loop at once.\<close>

fun assign_rf_port :: "rf_port list \<Rightarrow> node_ref \<Rightarrow> error + rf_port list" where
  "assign_rf_port [] ap = Inr []"
| "assign_rf_port (p # ps) ap =
     (if antenna_panel p = None then Inr (p\<lparr>antenna_panel := Some ap\<rparr> # ps)
      else Inl PyException)"

definition make_AntennaPanel ::
  "remote_radio_head \<Rightarrow> guid \<Rightarrow> sim \<Rightarrow> (error + antenna_panel_t) \<times> remote_radio_head \<times> sim" where
  "make_AntennaPanel self ap_id s =
     (case AntennaPanel_init ap_id s of
        (ap, s1) \<Rightarrow>
         (case add_to_sim self s1 of
            (Inl e, s2) \<Rightarrow> (Inl e, self, s2)
          | (Inr u, s2) \<Rightarrow>
             (case register_link self ap s2 of
                (Inl e, s3) \<Rightarrow> (Inl e, self, s3)
              | (Inr u, s3) \<Rightarrow>
                 (case assign_rf_port (rf_ports self) (as_ref ap) of
                    Inl e \<Rightarrow> (Inl e, self, s3)
                  | Inr ports \<Rightarrow> (Inr ap, self\<lparr>rf_ports := ports\<rparr>, s3)))))"

subsection \<open>The factories of Sim\<close>

definition make_cell :: "guid \<Rightarrow> sim \<Rightarrow> (error + aimmee_cell) \<times> sim" where
  "make_cell new_id s =
     (case AIMMeeCell_init new_id s of
        (c, s1) \<Rightarrow> (Inr c, s1\<lparr>cells := cells s1 @ [as_ref c]\<rparr>))"

definition make_UE :: "guid \<Rightarrow> sim \<Rightarrow> (error + aimmee_ue) \<times> sim" where
  "make_UE new_id s =
     (case AIMMeeUE_init new_id s of
        (u, s1) \<Rightarrow> (Inr u, s1\<lparr>UEs := UEs s1 @ [as_ref u]\<rparr>))"

definition make_RadioAccessPoint ::
  "guid \<Rightarrow> node_ref option \<Rightarrow> bool \<Rightarrow> real \<Rightarrow> sim \<Rightarrow> (error + radio_access_point) \<times> sim" where
  "make_RadioAccessPoint new_id cell centre ival s =
     (case RadioAccessPoint_init new_id cell centre ival s of
        (Inl e, s1) \<Rightarrow> (Inl e, s1)
      | (Inr r, s1) \<Rightarrow> (Inr r, s1\<lparr>raps := raps s1 @ [as_ref r]\<rparr>))"

definition make_RadioUnit ::
  "guid \<Rightarrow> node_ref option \<Rightarrow> node_ref option \<Rightarrow> node_ref option \<Rightarrow> real \<Rightarrow> sim
     \<Rightarrow> (error + radio_unit) \<times> sim" where
  "make_RadioUnit new_id cell rap du ival s =
     (case RadioUnit_init new_id cell rap du ival s of
        (Inl e, s1) \<Rightarrow> (Inl e, s1)
      | (Inr r, s1) \<Rightarrow> (Inr r, s1\<lparr>rus := rus s1 @ [as_ref r]\<rparr>))"

definition make_RemoteRadioHead ::
  "guid \<Rightarrow> radio_access_point option \<Rightarrow> node_ref option \<Rightarrow> node_ref option \<Rightarrow> int
     \<Rightarrow> fronthaul_arg \<Rightarrow> sim \<Rightarrow> (error + remote_radio_head) \<times> sim" where
  "make_RemoteRadioHead new_id rap ru du n fh s =
     (case RemoteRadioHead_init new_id rap ru du n fh s of
        (Inl e, s1) \<Rightarrow> (Inl e, s1)
      | (Inr r, s1) \<Rightarrow> (Inr r, s1\<lparr>rrhs := rrhs s1 @ [as_ref r]\<rparr>))"

text \<open>The default value of the \<^verbatim>\<open>fronthaul_ports\<close> argument.\<close>

definition fronthaul_default :: fronthaul_arg where
  "fronthaul_default = \<lparr>arg_n_ports = 2, arg_protocol = ''CPRI'', arg_data_rate_Gbps_max = 10\<rparr>"

subsection \<open>Sequences of calls\<close>

text \<open>A caller may catch an exception and go on; the simulation then is as the failed
  call left it. \<open>run_call\<close> and \<open>run_op\<close> give the simulation after a call, whatever
  its outcome.\<close>

datatype factory_call =
    Call_make_cell guid
  | Call_make_UE guid
  | Call_make_RadioAccessPoint guid "node_ref option" bool real
  | Call_make_RadioUnit guid "node_ref option" "node_ref option" "node_ref option" real
  | Call_make_RemoteRadioHead guid "radio_access_point option" "node_ref option"
      "node_ref option" int fronthaul_arg
  | Call_RAP_make_RadioUnit radio_access_point guid "node_ref option" "node_ref option" real
  | Call_make_AntennaPanel remote_radio_head guid
  | Call_DistributedUnit guid
  | Call_CentralisedUnit guid

fun run_call :: "factory_call \<Rightarrow> sim \<Rightarrow> sim" where
  "run_call (Call_make_cell i) s = snd (make_cell i s)"
| "run_call (Call_make_UE i) s = snd (make_UE i s)"
| "run_call (Call_make_RadioAccessPoint i cell centre ival) s =
     snd (make_RadioAccessPoint i cell centre ival s)"
| "run_call (Call_make_RadioUnit i cell rap du ival) s = snd (make_RadioUnit i cell rap du ival s)"
| "run_call (Call_make_RemoteRadioHead i rap ru du n fh) s =
     snd (make_RemoteRadioHead i rap ru du n fh s)"
| "run_call (Call_RAP_make_RadioUnit r i rap du ival) s = snd (RAP_make_RadioUnit r i rap du ival s)"
| "run_call (Call_make_AntennaPanel rrh i) s = snd (snd (make_AntennaPanel rrh i s))"
| "run_call (Call_DistributedUnit i) s = snd (DistributedUnit_init i s)"
| "run_call (Call_CentralisedUnit i) s = snd (CentralisedUnit_init i s)"

definition run_calls :: "factory_call list \<Rightarrow> sim \<Rightarrow> sim" where
  "run_calls cs s = fold run_call cs s"

datatype topo_op =
    Link node_ref node_ref
  | Unlink sim_object sim_object
  | UE_tick aimmee_ue

fun run_op :: "topo_op \<Rightarrow> sim \<Rightarrow> sim" where
  "run_op (Link a b) s = snd (register_link a b s)"
| "run_op (Unlink a b) s = snd (deregister_link a b s)"
| "run_op (UE_tick ue) s = snd (snd (AIMMeeUE_loop_body ue s))"

definition run_ops :: "topo_op list \<Rightarrow> sim \<Rightarrow> sim" where
  "run_ops ops s = fold run_op ops s"

subsection \<open>Invariants\<close>

text \<open>A node is registered when the topology has an adjacency list for its class name and
  GUID.\<close>

definition registered :: "topology_t \<Rightarrow> class_name \<Rightarrow> guid \<Rightarrow> bool" where
  "registered t c g = (topo_get t c g \<noteq> None)"

text \<open>A GUID is the \<^verbatim>\<open>id\<close> of one object, and an object has one class name: no GUID is
  registered under two class names.\<close>

definition one_class :: "topology_t \<Rightarrow> bool" where
  "one_class t = (\<forall>c c' g. registered t c g \<longrightarrow> registered t c' g \<longrightarrow> c = c')"

definition link_symmetric :: "topology_t \<Rightarrow> bool" where
  "link_symmetric t =
     (\<forall>ca ga cb gb la lb. topo_get t ca ga = Some la \<longrightarrow> topo_get t cb gb = Some lb \<longrightarrow>
        (gb \<in> set la \<longleftrightarrow> ga \<in> set lb))"

text \<open>Every entry of the GUID map is stored under the GUID of the node it holds.\<close>

definition guid_map_keyed :: "sim \<Rightarrow> bool" where
  "guid_map_keyed s = (\<forall>k n. guid_map s k = Some n \<longrightarrow> guid n = k)"

text \<open>The set of GUIDs in the adjacency list of a node (empty for an unregistered one), and
  the relations between a topology and a later one that the proofs use: the same nodes are
  registered; one edge has been added, or removed, in both directions.\<close>

definition adj :: "topology_t \<Rightarrow> class_name \<Rightarrow> guid \<Rightarrow> guid set" where
  "adj t c g = (case topo_get t c g of None \<Rightarrow> {} | Some l \<Rightarrow> set l)"

definition same_nodes :: "topology_t \<Rightarrow> topology_t \<Rightarrow> bool" where
  "same_nodes t t' = (\<forall>c g. registered t' c g = registered t c g)"

definition edge_added ::
  "topology_t \<Rightarrow> topology_t \<Rightarrow> class_name \<Rightarrow> guid \<Rightarrow> class_name \<Rightarrow> guid \<Rightarrow> bool" where
  "edge_added t t' ca ga cb gb =
     (same_nodes t t' \<and>
      (\<forall>c g. adj t' c g = adj t c g \<union> (if c = ca \<and> g = ga then {gb} else {})
                                  \<union> (if c = cb \<and> g = gb then {ga} else {})))"

definition edge_removed ::
  "topology_t \<Rightarrow> topology_t \<Rightarrow> class_name \<Rightarrow> guid \<Rightarrow> class_name \<Rightarrow> guid \<Rightarrow> bool" where
  "edge_removed t t' ca ga cb gb =
     (same_nodes t t' \<and>
      (\<forall>c g. adj t' c g = adj t c g - (if c = ca \<and> g = ga then {gb} else {})
                                  - (if c = cb \<and> g = gb then {ga} else {})))"

definition topo_inv :: "topology_t \<Rightarrow> bool" where
  "topo_inv t = (link_symmetric t \<and> one_class t)"

text \<open>What a topology operation of a sequence needs: a node passed to
  \<^verbatim>\<open>deregister_link\<close> is one built by the constructors (no \<^verbatim>\<open>_sim\<close> attribute), and a
  UE that runs its loop is registered under \<^verbatim>\<open>AIMMeeUE\<close>.\<close>

fun op_ok :: "topology_t \<Rightarrow> topo_op \<Rightarrow> bool" where
  "op_ok t (Link a b) = True"
| "op_ok t (Unlink a b) = (\<not> has_priv_sim a)"
| "op_ok t (UE_tick ue) = registered t ''AIMMeeUE'' (guid ue)"

subsection \<open>Concrete scenarios\<close>

text \<open>Objects and simulations at which the code is evaluated. Object identities are small
  integers chosen for the scenario.\<close>

text \<open>A RadioUnit made by \<^verbatim>\<open>sim.make_RadioUnit(cell=None, rap=None)\<close>, as a reference.\<close>

definition ru7 :: node_ref where
  "ru7 = \<lparr>guid = 7, class_name = ''RadioUnit''\<rparr>"

text \<open>A DistributedUnit as its constructor leaves it; the same after
  \<^verbatim>\<open>du.interval = 1.0; du.power_model = 10.0\<close>; and the same after
  \<^verbatim>\<open>du.example_DU_power_model(P_supply_max=1560)\<close>. A CentralisedUnit as its constructor
  leaves it.\<close>

definition du_default :: distributed_unit where
  "du_default = \<lparr>guid = 1, class_name = ''DistributedUnit'', interval = 0,
     priv_power_model = Some (PNum 624), has_priv_sim = False, priv_guid = None,
     power_consumption = 624, p_load = 624 / 2100, du_rrh = None\<rparr>"

definition du_P10 :: distributed_unit where
  "du_P10 = du_default\<lparr>interval := 1, priv_power_model := Some (PNum 10)\<rparr>"

definition du_load04 :: distributed_unit where
  "du_load04 = du_default\<lparr>p_load := 0.4\<rparr>"

definition cu_new :: centralised_unit where
  "cu_new = \<lparr>guid = 2, class_name = ''CentralisedUnit'', interval = 0,
     priv_power_model = Some (PNum 656.25), has_priv_sim = False, priv_guid = None,
     cu_du = None, cu_cu = None\<rparr>"

text \<open>A cell and a RadioAccessPoint in that cell, made by \<^verbatim>\<open>make_cell\<close> and
  \<^verbatim>\<open>make_RadioAccessPoint\<close>, and the simulation after each of the two calls.\<close>

definition cell1 :: aimmee_cell where
  "cell1 = \<lparr>guid = 1, class_name = ''AIMMeeCell'', interval = 0, priv_power_model = None,
     has_priv_sim = False, priv_guid = None, radius = 0\<rparr>"

definition rap2 :: radio_access_point where
  "rap2 = \<lparr>guid = 2, class_name = ''RadioAccessPoint'', interval = 1, priv_power_model = None,
     has_priv_sim = False, priv_guid = None, rap_cell = Some (as_ref cell1),
     at_cell_centre = True\<rparr>"

definition sim_cell :: sim where
  "sim_cell = snd (make_cell 1 Sim_init)"

definition sim_cell_rap :: sim where
  "sim_cell_rap = snd (make_RadioAccessPoint 2 (Some (as_ref cell1)) True 1 sim_cell)"

text \<open>A simulation with two cells (identities 1 and 2) and one UE (identity 3), its
  topology, and the UE as \<^verbatim>\<open>make_UE\<close> returns it.\<close>

definition sim3 :: sim where
  "sim3 = run_calls [Call_make_cell 1, Call_make_cell 2, Call_make_UE 3] Sim_init"

definition topo3 :: topology_t where
  "topo3 = [''AIMMeeCell'' \<mapsto> [1 \<mapsto> [], 2 \<mapsto> []], ''AIMMeeUE'' \<mapsto> [3 \<mapsto> []]]"

definition ue3 :: aimmee_ue where
  "ue3 = \<lparr>guid = 3, class_name = ''AIMMeeUE'', interval = 0, priv_power_model = None,
     has_priv_sim = False, priv_guid = None, last_cell_guid = None,
     current_cell_guid = None, serving_cell = None\<rparr>"

definition cell_ref :: "guid \<Rightarrow> node_ref" where
  "cell_ref g = \<lparr>guid = g, class_name = ''AIMMeeCell''\<rparr>"

definition ue3_ref :: node_ref where
  "ue3_ref = \<lparr>guid = 3, class_name = ''AIMMeeUE''\<rparr>"

definition cell2_obj :: sim_object where
  "cell2_obj = \<lparr>guid = 2, class_name = ''AIMMeeCell'', interval = 0, priv_power_model = None,
     has_priv_sim = False, priv_guid = None\<rparr>"

text \<open>The simulation after the first loop iteration of the UE with cell 1 as serving cell,
  and the UE once the external simulator has then re-attached it to cell 2.\<close>

definition sim3_attached :: sim where
  "sim3_attached = run_ops [UE_tick (ue3\<lparr>serving_cell := Some (cell_ref 1)\<rparr>)] sim3"

definition ue3_moving :: aimmee_ue where
  "ue3_moving = ue3\<lparr>current_cell_guid := Some 1, serving_cell := Some (cell_ref 2)\<rparr>"

text \<open>The UE attaches to cell 1; cell 2 and the UE are linked by hand; the link is then
  taken back with \<^verbatim>\<open>deregister_link\<close>; the UE moves to cell 2.\<close>

definition ops3 :: "topo_op list" where
  "ops3 = [UE_tick (ue3\<lparr>serving_cell := Some (cell_ref 1)\<rparr>),
           Link (cell_ref 2) ue3_ref,
           Unlink cell2_obj (sim_object.truncate ue3),
           UE_tick ue3_moving]"

text \<open>A RemoteRadioHead built by \<^verbatim>\<open>sim.make_RemoteRadioHead(rap=None, n_rf_ports=2)\<close> on a
  new simulation, the simulation after its constructor, and three \<^verbatim>\<open>make_AntennaPanel\<close>
  calls in a row, each on the RemoteRadioHead and the simulation that the call before
  left.\<close>

definition free_port :: rf_port where
  "free_port = \<lparr>antenna_panel = None, rf_output_max_watts = 20, rf_output_watts = 0\<rparr>"

definition panel_ref :: "guid \<Rightarrow> node_ref" where
  "panel_ref g = \<lparr>guid = g, class_name = ''AntennaPanel''\<rparr>"

definition rrh10 :: remote_radio_head where
  "rrh10 = \<lparr>guid = 10, class_name = ''RemoteRadioHead'', interval = 0, priv_power_model = None,
     has_priv_sim = False, priv_guid = None, rrh_cell = None, rrh_rap = None, rrh_ru = None,
     rrh_du = None, n_rf_ports = 2, rf_ports = [free_port, free_port],
     port_store = [0 \<mapsto> \<lparr>protocol = ''CPRI'', data_rate_Gbps = 0, data_rate_Gbps_max = 10\<rparr>],
     priv_default_port_params = 0,
     priv_fronthaul_ports = (\<lambda>i. if 0 \<le> i \<and> i < 2 then Some 0 else None)\<rparr>"

definition sim_rrh10 :: sim where
  "sim_rrh10 = \<lparr>topology = [''RemoteRadioHead'' \<mapsto> [10 \<mapsto> []]],
          guid_map = [10 \<mapsto> \<lparr>guid = 10, class_name = ''RemoteRadioHead''\<rparr>],
          cells = [], UEs = [], raps = [], rus = [], rrhs = []\<rparr>"

definition panels_0 :: sim where
  "panels_0 = snd (make_RemoteRadioHead 10 None None None 2 fronthaul_default Sim_init)"

definition panels_1 :: "(error + antenna_panel_t) \<times> remote_radio_head \<times> sim" where
  "panels_1 = make_AntennaPanel rrh10 11 panels_0"

definition panels_2 :: "(error + antenna_panel_t) \<times> remote_radio_head \<times> sim" where
  "panels_2 = make_AntennaPanel (fst (snd panels_1)) 12 (snd (snd panels_1))"

definition panels_3 :: "(error + antenna_panel_t) \<times> remote_radio_head \<times> sim" where
  "panels_3 = make_AntennaPanel (fst (snd panels_2)) 13 (snd (snd panels_2))"

section \<open>Properties\<close>

subsection \<open>Auxiliary facts\<close>

lemmas rec_defs = sim_object.defs aimmee_cell.defs aimmee_ue.defs radio_access_point.defs
  radio_unit.defs distributed_unit.defs centralised_unit.defs remote_radio_head.defs

declare remove_while.simps [simp del]

lemma seq_Inr:
  "((case m of (Inl e, s) \<Rightarrow> (Inl e, s) | (Inr u, s) \<Rightarrow> f u s) = (Inr r, s'))
     = (\<exists>u s1. m = (Inr u, s1) \<and> f u s1 = (Inr r, s'))"
  by (cases m; cases "fst m") auto

lemma seq_preserves:
  assumes "P (snd m)" and "\<And>u s. P s \<Longrightarrow> P (snd (f u s))"
  shows "P (snd (case m of (Inl e, s) \<Rightarrow> (Inl e, s) | (Inr u, s) \<Rightarrow> f u s))"
proof (cases m)
  case (Pair r s)
  with assms show ?thesis by (cases r) auto
qed

lemmas keyed_seq = seq_preserves[where P = guid_map_keyed]

lemma remove_while_removeAll: "remove_while x l = removeAll x l"
proof (induction x l rule: remove_while.induct)
  case (1 x l)
  show ?case
  proof (cases "x \<in> set l")
    case True
    then have "remove_while x l = remove_while x (remove1 x l)"
      by (simp add: remove_while.simps[of x l])
    also have "\<dots> = removeAll x (remove1 x l)" using 1 True by simp
    also have "\<dots> = removeAll x l"
      by (induction l) auto
    finally show ?thesis .
  next
    case False
    then show ?thesis by (simp add: remove_while.simps[of x l])
  qed
qed

lemma topo_get_set_reg:
  "registered t c g \<Longrightarrow> topo_get (topo_set t c g l) c' g' =
     (if c' = c \<and> g' = g then Some l else topo_get t c' g')"
  by (auto simp: registered_def topo_get_def topo_set_def split: option.splits)

lemma registered_set [simp]:
  "registered t c g \<Longrightarrow> registered (topo_set t c g l) c' g' = registered t c' g'"
  using topo_get_set_reg[of t c g l c' g'] by (auto simp: registered_def)

lemma loop_keeps_self: "fst (loop n self s now) = self"
  by (induction n arbitrary: now) (simp_all add: loop_body_def)

lemma link_symmetric_adj:
  "link_symmetric t = (\<forall>ca ga cb gb. registered t ca ga \<longrightarrow> registered t cb gb \<longrightarrow>
      (gb \<in> adj t ca ga \<longleftrightarrow> ga \<in> adj t cb gb))"
proof
  assume ls: "link_symmetric t"
  show "\<forall>ca ga cb gb. registered t ca ga \<longrightarrow> registered t cb gb \<longrightarrow>
      (gb \<in> adj t ca ga \<longleftrightarrow> ga \<in> adj t cb gb)"
  proof (intro allI impI)
    fix ca ga cb gb
    assume "registered t ca ga" "registered t cb gb"
    then obtain la lb where l: "topo_get t ca ga = Some la" "topo_get t cb gb = Some lb"
      by (auto simp: registered_def)
    with ls have "gb \<in> set la \<longleftrightarrow> ga \<in> set lb"
      unfolding link_symmetric_def by blast
    with l show "gb \<in> adj t ca ga \<longleftrightarrow> ga \<in> adj t cb gb" by (simp add: adj_def)
  qed
next
  assume r: "\<forall>ca ga cb gb. registered t ca ga \<longrightarrow> registered t cb gb \<longrightarrow>
      (gb \<in> adj t ca ga \<longleftrightarrow> ga \<in> adj t cb gb)"
  show "link_symmetric t"
    unfolding link_symmetric_def
  proof (intro allI impI)
    fix ca ga cb gb la lb
    assume l: "topo_get t ca ga = Some la" "topo_get t cb gb = Some lb"
    then have "registered t ca ga" "registered t cb gb" by (simp_all add: registered_def)
    with r have "gb \<in> adj t ca ga \<longleftrightarrow> ga \<in> adj t cb gb" by blast
    with l show "gb \<in> set la \<longleftrightarrow> ga \<in> set lb" by (simp add: adj_def)
  qed
qed


lemma one_classD: "one_class t \<Longrightarrow> registered t c g \<Longrightarrow> registered t c' g \<Longrightarrow> c = c'"
  unfolding one_class_def by blast

lemma same_nodes_one_class: "same_nodes t t' \<Longrightarrow> one_class t \<Longrightarrow> one_class t'"
  unfolding same_nodes_def one_class_def by blast

lemma same_nodes_refl [simp]: "same_nodes t t"
  by (simp add: same_nodes_def)

lemma same_nodes_trans: "same_nodes t t' \<Longrightarrow> same_nodes t' t'' \<Longrightarrow> same_nodes t t''"
  unfolding same_nodes_def by blast

lemma adj_set:
  "registered t c g \<Longrightarrow> adj (topo_set t c g l) c' g' = (if c' = c \<and> g' = g then set l else adj t c' g')"
  by (simp add: adj_def topo_get_set_reg)

lemma same_nodes_set: "registered t c g \<Longrightarrow> same_nodes t (topo_set t c g l)"
  by (simp add: same_nodes_def)

subsection \<open>Registration\<close>

text \<open>
  C8 (as amended). Adding a node to the simulation a second time does not fail: when the
  topology already has an adjacency list for the node and the GUID map already has an
  entry for its GUID, \<^verbatim>\<open>add_to_sim\<close> returns normally and leaves the whole simulation
  unchanged; this holds for a node of any class. The source has no duplicate-registration
  error, and \<^verbatim>\<open>make_AntennaPanel\<close> itself registers the RemoteRadioHead again.
\<close>

theorem add_to_sim_registered_noop:
  assumes "topo_get (topology s) (class_name x) (guid x) = Some l"
      and "guid_map s (guid x) = Some n"
  shows "add_to_sim x s = (Inr (), s)"
proof -
  from assms(1) obtain d where d: "topology s (class_name x) = Some d" "d (guid x) = Some l"
    by (auto simp: topo_get_def split: option.splits)
  have "(topology s)(class_name x \<mapsto> d) = topology s"
    using d(1) by (simp add: fun_upd_idem)
  then show ?thesis
    using d assms(2) by (simp add: add_to_sim_def Let_def)
qed

theorem add_to_sim_registered_noop_witness:
  "topo_get (topology (snd (add_to_sim ru7 Sim_init))) (class_name ru7) (guid ru7) = Some []
   \<and> guid_map (snd (add_to_sim ru7 Sim_init)) (guid ru7) = Some ru7
   \<and> add_to_sim ru7 (snd (add_to_sim ru7 Sim_init)) = (Inr (), snd (add_to_sim ru7 Sim_init))"
proof -
  have a: "topo_get (topology (snd (add_to_sim ru7 Sim_init))) (class_name ru7) (guid ru7) = Some []"
    by (simp add: add_to_sim_def Let_def Sim_init_def topo_get_def ru7_def)
  have b: "guid_map (snd (add_to_sim ru7 Sim_init)) (guid ru7) = Some ru7"
    by (simp add: add_to_sim_def Let_def Sim_init_def ru7_def as_ref_def)
  from a b add_to_sim_registered_noop[OF a b] show ?thesis by simp
qed

text \<open>
  The claim as stated fails (C8): a RadioUnit made by \<^verbatim>\<open>sim.make_RadioUnit(cell=None, rap=None)\<close>
  on a new simulation (object identity 7) is registered; registering it once more returns
  normally, with the simulation as it was.
\<close>

theorem duplicate_registration_counterexample:
  "\<not> isl (fst (make_RadioUnit 7 None None None 1 Sim_init))
   \<and> add_to_sim ru7 (snd (make_RadioUnit 7 None None None 1 Sim_init))
       = (Inr (), snd (make_RadioUnit 7 None None None 1 Sim_init))"
  by (simp add: make_RadioUnit_def RadioUnit_init_def SimObject_init_def add_to_sim_def Let_def
      Sim_init_def ru7_def rec_defs as_ref_def fun_upd_idem)

subsection \<open>GUID uniqueness\<close>

lemma keyed_add_to_sim: "guid_map_keyed s \<Longrightarrow> guid_map_keyed (snd (add_to_sim x s))"
  by (auto simp: guid_map_keyed_def add_to_sim_def Let_def as_ref_def split: option.splits)

lemma guid_map_register_link [simp]: "guid_map (snd (register_link a b s)) = guid_map s"
  by (simp add: register_link_def Let_def split: option.splits)

lemma keyed_register_link: "guid_map_keyed s \<Longrightarrow> guid_map_keyed (snd (register_link a b s))"
  by (simp add: guid_map_keyed_def)

lemma keyed_SimObject_init: "guid_map_keyed s \<Longrightarrow> guid_map_keyed (snd (SimObject_init i c p s))"
  by (simp add: SimObject_init_def Let_def keyed_add_to_sim)

lemma keyed_upd [simp]:
  "guid_map_keyed (s\<lparr>cells := x\<rparr>) = guid_map_keyed s"
  "guid_map_keyed (s\<lparr>UEs := x\<rparr>) = guid_map_keyed s"
  "guid_map_keyed (s\<lparr>raps := x\<rparr>) = guid_map_keyed s"
  "guid_map_keyed (s\<lparr>rus := x\<rparr>) = guid_map_keyed s"
  "guid_map_keyed (s\<lparr>rrhs := x\<rparr>) = guid_map_keyed s"
  by (simp_all add: guid_map_keyed_def)

lemma keyed_make_cell: "guid_map_keyed s \<Longrightarrow> guid_map_keyed (snd (make_cell i s))"
  using keyed_SimObject_init[of s i "''AIMMeeCell''" None]
  by (auto simp: make_cell_def AIMMeeCell_init_def split: prod.splits)

lemma keyed_make_UE: "guid_map_keyed s \<Longrightarrow> guid_map_keyed (snd (make_UE i s))"
  using keyed_SimObject_init[of s i "''AIMMeeUE''" None]
  by (auto simp: make_UE_def AIMMeeUE_init_def split: prod.splits)

lemma keyed_RadioAccessPoint_init:
  assumes "guid_map_keyed s" shows "guid_map_keyed (snd (RadioAccessPoint_init i cell centre ival s))"
proof -
  obtain b s1 where bs: "SimObject_init i ''RadioAccessPoint'' (Some ival) s = (b, s1)"
    by (cases "SimObject_init i ''RadioAccessPoint'' (Some ival) s")
  with keyed_SimObject_init[OF assms, of i "''RadioAccessPoint''" "Some ival"]
  have k1: "guid_map_keyed s1" by simp
  show ?thesis
  proof (cases cell)
    case None
    with bs k1 show ?thesis by (simp add: RadioAccessPoint_init_def Let_def)
  next
    case (Some c)
    show ?thesis
      unfolding RadioAccessPoint_init_def Let_def bs Some prod.case option.case
      by (rule keyed_seq) (simp_all add: k1 keyed_register_link)
  qed
qed

lemma keyed_RadioUnit_init:
  assumes "guid_map_keyed s" shows "guid_map_keyed (snd (RadioUnit_init i cell rap du ival s))"
proof -
  obtain b s1 where bs: "SimObject_init i ''RadioUnit'' (Some ival) s = (b, s1)"
    by (cases "SimObject_init i ''RadioUnit'' (Some ival) s")
  with keyed_SimObject_init[OF assms, of i "''RadioUnit''" "Some ival"]
  have k1: "guid_map_keyed s1" by simp
  show ?thesis
    unfolding RadioUnit_init_def Let_def bs prod.case
    apply (rule keyed_seq)
     apply (simp add: k1 keyed_register_link split: option.splits)
    apply (rule keyed_seq)
     apply (simp add: k1 keyed_register_link split: option.splits)
    apply simp
    done
qed

lemma keyed_RemoteRadioHead_init:
  assumes "guid_map_keyed s" shows "guid_map_keyed (snd (RemoteRadioHead_init i rap ru du n fh s))"
proof -
  obtain b s1 where bs: "SimObject_init i ''RemoteRadioHead'' None s = (b, s1)"
    by (cases "SimObject_init i ''RemoteRadioHead'' None s")
  with keyed_SimObject_init[OF assms, of i "''RemoteRadioHead''" None]
  have k1: "guid_map_keyed s1" by simp
  show ?thesis
    unfolding RemoteRadioHead_init_def Let_def bs prod.case
    apply (rule keyed_seq)
     apply (simp add: k1 keyed_register_link split: option.splits)
    apply (rule keyed_seq)
     apply (simp add: k1 keyed_register_link split: option.splits)
    apply simp
    done
qed

lemma keyed_factories:
  assumes "guid_map_keyed s"
  shows "guid_map_keyed (snd (make_RadioAccessPoint i cell centre ival s))"
    and "guid_map_keyed (snd (make_RadioUnit i cell rap du ival s))"
    and "guid_map_keyed (snd (make_RemoteRadioHead i rap' ru du n fh s))"
    and "guid_map_keyed (snd (RAP_make_RadioUnit r i rap du ival s))"
proof -
  show "guid_map_keyed (snd (make_RadioAccessPoint i cell centre ival s))"
    unfolding make_RadioAccessPoint_def
    by (rule keyed_seq) (simp_all add: keyed_RadioAccessPoint_init assms)
  show "guid_map_keyed (snd (make_RadioUnit i cell rap du ival s))"
    unfolding make_RadioUnit_def
    by (rule keyed_seq) (simp_all add: keyed_RadioUnit_init assms)
  show "guid_map_keyed (snd (make_RemoteRadioHead i rap' ru du n fh s))"
    unfolding make_RemoteRadioHead_def
    by (rule keyed_seq) (simp_all add: keyed_RemoteRadioHead_init assms)
  show "guid_map_keyed (snd (RAP_make_RadioUnit r i rap du ival s))"
    unfolding RAP_make_RadioUnit_def
    apply (rule keyed_seq)
     apply (simp add: keyed_RadioUnit_init assms)
    apply (rule keyed_seq)
     apply (simp add: keyed_register_link)
    apply simp
    done
qed

lemma keyed_DU: "guid_map_keyed s \<Longrightarrow> guid_map_keyed (snd (DistributedUnit_init i s))"
  using keyed_SimObject_init[of s i "''DistributedUnit''" None]
  by (auto simp: DistributedUnit_init_def split: prod.splits sum.splits)

lemma keyed_CU: "guid_map_keyed s \<Longrightarrow> guid_map_keyed (snd (CentralisedUnit_init i s))"
  using keyed_SimObject_init[of s i "''CentralisedUnit''" None]
  by (auto simp: CentralisedUnit_init_def split: prod.splits sum.splits)

lemma make_AntennaPanel_sim:
  "snd (snd (make_AntennaPanel rrh i s)) =
     snd (register_link rrh (fst (AntennaPanel_init i s))
            (snd (add_to_sim rrh (snd (AntennaPanel_init i s)))))"
proof -
  have a: "add_to_sim x t = (Inr (), snd (add_to_sim x t))" for x :: remote_radio_head and t
    by (simp add: add_to_sim_def Let_def)
  obtain ap s1 where ap: "AntennaPanel_init i s = (ap, s1)"
    by (cases "AntennaPanel_init i s")
  obtain r s3 where r: "register_link rrh ap (snd (add_to_sim rrh s1)) = (r, s3)"
    by (cases "register_link rrh ap (snd (add_to_sim rrh s1))")
  show ?thesis
    unfolding make_AntennaPanel_def ap prod.case
    by (subst a) (simp add: r split: sum.splits)
qed

lemma keyed_AP: "guid_map_keyed s \<Longrightarrow> guid_map_keyed (snd (snd (make_AntennaPanel rrh i s)))"
  by (simp add: make_AntennaPanel_sim keyed_register_link keyed_add_to_sim AntennaPanel_init_def
      keyed_SimObject_init)

lemma keyed_run_call: "guid_map_keyed s \<Longrightarrow> guid_map_keyed (run_call c s)"
  by (cases c) (simp_all add: keyed_make_cell keyed_make_UE keyed_factories keyed_DU keyed_CU keyed_AP)

lemma keyed_run_calls: "guid_map_keyed s \<Longrightarrow> guid_map_keyed (run_calls cs s)"
  unfolding run_calls_def by (induction cs arbitrary: s) (simp_all add: keyed_run_call)

lemma keyed_Sim_init: "guid_map_keyed Sim_init"
  by (simp add: guid_map_keyed_def Sim_init_def)

text \<open>
  C7. After any sequence of factory and constructor calls on a new simulation, whatever
  their arguments and outcomes, two distinct nodes held in the GUID map have different
  GUIDs: every node sits under its own GUID as key.
\<close>

theorem guid_unique_in_guid_map:
  assumes "guid_map (run_calls cs Sim_init) k1 = Some n1"
      and "guid_map (run_calls cs Sim_init) k2 = Some n2"
      and "n1 \<noteq> n2"
  shows "guid n1 \<noteq> guid n2"
proof -
  have "guid_map_keyed (run_calls cs Sim_init)"
    by (rule keyed_run_calls[OF keyed_Sim_init])
  with assms(1,2) have "guid n1 = k1" "guid n2 = k2"
    unfolding guid_map_keyed_def by blast+
  with assms show ?thesis by auto
qed


lemma sim3_eval:
  "sim3 = \<lparr>topology = topo3,
      guid_map = [1 \<mapsto> cell_ref 1, 2 \<mapsto> cell_ref 2, 3 \<mapsto> ue3_ref],
      cells = [cell_ref 1, cell_ref 2], UEs = [ue3_ref], raps = [], rus = [], rrhs = []\<rparr>"
  by (simp add: sim3_def topo3_def run_calls_def make_cell_def make_UE_def AIMMeeCell_init_def
      AIMMeeUE_init_def SimObject_init_def add_to_sim_def Let_def Sim_init_def rec_defs as_ref_def
      cell_ref_def ue3_ref_def)

theorem guid_unique_in_guid_map_witness:
  "guid_map (run_calls [Call_make_cell 1, Call_make_cell 2, Call_make_UE 3] Sim_init) 1
     = Some (cell_ref 1)
   \<and> guid_map (run_calls [Call_make_cell 1, Call_make_cell 2, Call_make_UE 3] Sim_init) 3
     = Some ue3_ref
   \<and> cell_ref 1 \<noteq> ue3_ref
   \<and> guid (cell_ref 1) \<noteq> guid ue3_ref"
proof -
  have a: "guid_map (run_calls [Call_make_cell 1, Call_make_cell 2, Call_make_UE 3] Sim_init) 1
     = Some (cell_ref 1)"
    and b: "guid_map (run_calls [Call_make_cell 1, Call_make_cell 2, Call_make_UE 3] Sim_init) 3
     = Some ue3_ref"
    using sim3_eval by (simp_all add: sim3_def)
  have c: "cell_ref 1 \<noteq> ue3_ref" by (simp add: cell_ref_def ue3_ref_def)
  from guid_unique_in_guid_map[OF a b c] a b c show ?thesis by simp
qed

subsection \<open>Link symmetry\<close>

lemma sym_edge_added:
  assumes sym: "link_symmetric t" and oc: "one_class t"
      and ra: "registered t ca ga" and rb: "registered t cb gb"
      and ea: "edge_added t t' ca ga cb gb"
  shows "link_symmetric t'"
  unfolding link_symmetric_adj
proof (intro allI impI)
  fix c g c' g'
  assume "registered t' c g" "registered t' c' g'"
  with ea have r: "registered t c g" and r': "registered t c' g'"
    by (simp_all add: edge_added_def same_nodes_def)
  from sym r r' have s: "g' \<in> adj t c g \<longleftrightarrow> g \<in> adj t c' g'"
    unfolding link_symmetric_adj by blast
  have ca: "c = ca" if "g = ga" using that one_classD[OF oc, of c g ca] r ra by simp
  have cb: "c = cb" if "g = gb" using that one_classD[OF oc, of c g cb] r rb by simp
  have ca': "c' = ca" if "g' = ga" using that one_classD[OF oc, of c' g' ca] r' ra by simp
  have cb': "c' = cb" if "g' = gb" using that one_classD[OF oc, of c' g' cb] r' rb by simp
  from ea have a1: "adj t' c g = adj t c g \<union> (if c = ca \<and> g = ga then {gb} else {})
                                  \<union> (if c = cb \<and> g = gb then {ga} else {})" for c g
    by (simp add: edge_added_def)
  have m1: "g' \<in> adj t' c g \<longleftrightarrow> g' \<in> adj t c g \<or> (g = ga \<and> g' = gb) \<or> (g = gb \<and> g' = ga)"
    using ca cb by (cases "g = ga"; cases "g = gb") (auto simp: a1)
  have m2: "g \<in> adj t' c' g' \<longleftrightarrow> g \<in> adj t c' g' \<or> (g' = ga \<and> g = gb) \<or> (g' = gb \<and> g = ga)"
    using ca' cb' by (cases "g' = ga"; cases "g' = gb") (auto simp: a1)
  show "g' \<in> adj t' c g \<longleftrightarrow> g \<in> adj t' c' g'"
    unfolding m1 m2 using s by blast
qed

lemma sym_edge_removed:
  assumes sym: "link_symmetric t" and oc: "one_class t"
      and ra: "registered t ca ga" and rb: "registered t cb gb"
      and ea: "edge_removed t t' ca ga cb gb"
  shows "link_symmetric t'"
  unfolding link_symmetric_adj
proof (intro allI impI)
  fix c g c' g'
  assume "registered t' c g" "registered t' c' g'"
  with ea have r: "registered t c g" and r': "registered t c' g'"
    by (simp_all add: edge_removed_def same_nodes_def)
  from sym r r' have s: "g' \<in> adj t c g \<longleftrightarrow> g \<in> adj t c' g'"
    unfolding link_symmetric_adj by blast
  have ca: "c = ca" if "g = ga" using that one_classD[OF oc, of c g ca] r ra by simp
  have cb: "c = cb" if "g = gb" using that one_classD[OF oc, of c g cb] r rb by simp
  have ca': "c' = ca" if "g' = ga" using that one_classD[OF oc, of c' g' ca] r' ra by simp
  have cb': "c' = cb" if "g' = gb" using that one_classD[OF oc, of c' g' cb] r' rb by simp
  from ea have a1: "adj t' c g = adj t c g - (if c = ca \<and> g = ga then {gb} else {})
                                  - (if c = cb \<and> g = gb then {ga} else {})" for c g
    by (simp add: edge_removed_def)
  have m1: "g' \<in> adj t' c g \<longleftrightarrow> g' \<in> adj t c g \<and> \<not> (g = ga \<and> g' = gb) \<and> \<not> (g = gb \<and> g' = ga)"
    using ca cb by (cases "g = ga"; cases "g = gb") (auto simp: a1)
  have m2: "g \<in> adj t' c' g' \<longleftrightarrow> g \<in> adj t c' g' \<and> \<not> (g' = ga \<and> g = gb) \<and> \<not> (g' = gb \<and> g = ga)"
    using ca' cb' by (cases "g' = ga"; cases "g' = gb") (auto simp: a1)
  show "g' \<in> adj t' c g \<longleftrightarrow> g \<in> adj t' c' g'"
    unfolding m1 m2 using s by blast
qed


lemma register_link_KeyError:
  "\<not> (registered (topology s) (class_name a) (guid a) \<and> registered (topology s) (class_name b) (guid b))
   \<Longrightarrow> register_link a b s = (Inl KeyError, s)"
  by (auto simp: register_link_def registered_def split: option.splits)

lemma register_link_edge:
  assumes ra: "registered (topology s) (class_name a) (guid a)"
      and rb: "registered (topology s) (class_name b) (guid b)"
  shows "\<exists>t'. register_link a b s = (Inr (), s\<lparr>topology := t'\<rparr>)
           \<and> edge_added (topology s) t' (class_name a) (guid a) (class_name b) (guid b)"
proof -
  from ra rb obtain la lb where la: "topo_get (topology s) (class_name a) (guid a) = Some la"
    and lb: "topo_get (topology s) (class_name b) (guid b) = Some lb"
    by (auto simp: registered_def)
  define la' where "la' = (if guid b \<notin> set la then la @ [guid b] else la)"
  define ol where "ol = (if class_name b = class_name a \<and> guid b = guid a then la' else lb)"
  define lb' where "lb' = (if guid a \<notin> set ol then ol @ [guid a] else ol)"
  define t1 where "t1 = topo_set (topology s) (class_name a) (guid a) la'"
  define t2 where "t2 = topo_set t1 (class_name b) (guid b) lb'"
  have res: "register_link a b s = (Inr (), s\<lparr>topology := t2\<rparr>)"
    using la lb by (simp add: register_link_def Let_def la'_def ol_def lb'_def t1_def t2_def)
  have r1: "registered t1 (class_name b) (guid b)"
    using ra rb by (simp add: t1_def)
  have sn: "same_nodes (topology s) t2"
    using same_nodes_trans[OF same_nodes_set[OF ra, of la'] same_nodes_set[OF r1[unfolded t1_def], of lb']]
    by (simp add: t1_def t2_def)
  have sla: "set la' = insert (guid b) (set la)"
    by (auto simp: la'_def)
  have slb: "set lb' = insert (guid a) (set ol)"
    by (auto simp: lb'_def)
  have A: "adj (topology s) (class_name a) (guid a) = set la"
    and B: "adj (topology s) (class_name b) (guid b) = set lb"
    using la lb by (simp_all add: adj_def)
  have "adj t2 c g = adj (topology s) c g
          \<union> (if c = class_name a \<and> g = guid a then {guid b} else {})
          \<union> (if c = class_name b \<and> g = guid b then {guid a} else {})" for c g
  proof -
    have "adj t2 c g = (if c = class_name b \<and> g = guid b then set lb'
                        else if c = class_name a \<and> g = guid a then set la'
                        else adj (topology s) c g)"
      using ra r1 by (simp add: t2_def t1_def adj_set)
    then show ?thesis
      using A B la lb by (auto simp: sla slb ol_def)
  qed
  with sn res show ?thesis unfolding edge_added_def by blast
qed

lemma register_link_inv:
  assumes "link_symmetric (topology s)" and "one_class (topology s)"
  shows "link_symmetric (topology (snd (register_link a b s)))
       \<and> same_nodes (topology s) (topology (snd (register_link a b s)))"
proof (cases "registered (topology s) (class_name a) (guid a) \<and> registered (topology s) (class_name b) (guid b)")
  case True
  then obtain t' where t': "register_link a b s = (Inr (), s\<lparr>topology := t'\<rparr>)"
    "edge_added (topology s) t' (class_name a) (guid a) (class_name b) (guid b)"
    using register_link_edge by blast
  from sym_edge_added[OF assms _ _ t'(2)] True t' show ?thesis
    by (simp add: edge_added_def)
next
  case False
  then show ?thesis using assms by (simp add: register_link_KeyError)
qed


lemma remove_from_last_cell_edge:
  assumes ru: "registered t ''AIMMeeUE'' u"
  shows "(\<not> registered t ''AIMMeeCell'' l \<and> remove_from_last_cell u l t = (Inl KeyError, t))
       \<or> (\<exists>t'. registered t ''AIMMeeCell'' l \<and> remove_from_last_cell u l t = (Inr (), t')
              \<and> edge_removed t t' ''AIMMeeCell'' l ''AIMMeeUE'' u)"
proof (cases "registered t ''AIMMeeCell'' l")
  case False
  then show ?thesis by (simp add: remove_from_last_cell_def registered_def)
next
  case True
  then obtain cl where cl: "topo_get t ''AIMMeeCell'' l = Some cl" by (auto simp: registered_def)
  from ru obtain ul where ul: "topo_get t ''AIMMeeUE'' u = Some ul" by (auto simp: registered_def)
  define t1 where "t1 = topo_set t ''AIMMeeCell'' l (remove_while u cl)"
  define t2 where "t2 = topo_set t1 ''AIMMeeUE'' u (remove_while l ul)"
  have g1: "topo_get t1 ''AIMMeeUE'' u = Some ul"
    using True ul by (simp add: t1_def topo_get_set_reg)
  have r1: "registered t1 ''AIMMeeUE'' u" using g1 by (simp add: registered_def)
  have res: "remove_from_last_cell u l t = (Inr (), t2)"
    using cl g1 by (simp add: remove_from_last_cell_def Let_def t1_def t2_def)
  have sn: "same_nodes t t2"
    using same_nodes_trans[OF same_nodes_set[OF True, of "remove_while u cl"]
        same_nodes_set[OF r1[unfolded t1_def], of "remove_while l ul"]]
    by (simp add: t1_def t2_def)
  have A: "adj t ''AIMMeeCell'' l = set cl" and B: "adj t ''AIMMeeUE'' u = set ul"
    using cl ul by (simp_all add: adj_def)
  have "adj t2 c g = adj t c g - (if c = ''AIMMeeCell'' \<and> g = l then {u} else {})
                               - (if c = ''AIMMeeUE'' \<and> g = u then {l} else {})" for c g
  proof -
    have "adj t2 c g = (if c = ''AIMMeeUE'' \<and> g = u then set (remove_while l ul)
                        else if c = ''AIMMeeCell'' \<and> g = l then set (remove_while u cl)
                        else adj t c g)"
      using True r1 by (simp add: t2_def t1_def adj_set)
    then show ?thesis
      using A B by (auto simp: remove_while_removeAll)
  qed
  with sn res True show ?thesis unfolding edge_removed_def by blast
qed

lemma add_to_current_cell_edge:
  assumes ru: "registered t ''AIMMeeUE'' u"
  shows "add_to_current_cell u cur t = (Inl KeyError, t)
       \<or> (\<exists>c t'. cur = Some c \<and> registered t ''AIMMeeCell'' c
              \<and> add_to_current_cell u cur t = (Inr (), t')
              \<and> edge_added t t' ''AIMMeeCell'' c ''AIMMeeUE'' u)"
proof (cases cur)
  case None
  then show ?thesis by (simp add: add_to_current_cell_def)
next
  case (Some c)
  show ?thesis
  proof (cases "registered t ''AIMMeeCell'' c")
    case False
    with Some show ?thesis by (simp add: add_to_current_cell_def registered_def)
  next
    case True
    then obtain cl where cl: "topo_get t ''AIMMeeCell'' c = Some cl" by (auto simp: registered_def)
    from ru obtain ul where ul: "topo_get t ''AIMMeeUE'' u = Some ul" by (auto simp: registered_def)
    define cl' where "cl' = (if u \<notin> set cl then cl @ [u] else cl)"
    define ul' where "ul' = (if c \<notin> set ul then ul @ [c] else ul)"
    define t1 where "t1 = topo_set t ''AIMMeeCell'' c cl'"
    define t2 where "t2 = topo_set t1 ''AIMMeeUE'' u ul'"
    have t1_alt: "(if u \<notin> set cl then topo_set t ''AIMMeeCell'' c (cl @ [u]) else t) = t1"
    proof (cases "u \<in> set cl")
      case True
      have "topo_set t ''AIMMeeCell'' c cl = t"
        using cl by (auto simp: topo_set_def topo_get_def fun_upd_idem split: option.splits)
      with True show ?thesis by (simp add: t1_def cl'_def)
    next
      case False
      then show ?thesis by (simp add: t1_def cl'_def)
    qed
    have g1: "topo_get t1 ''AIMMeeUE'' u = Some ul"
      using True ul by (simp add: t1_def topo_get_set_reg)
    have r1: "registered t1 ''AIMMeeUE'' u" using g1 by (simp add: registered_def)
    have t2_alt: "(if c \<notin> set ul then topo_set t1 ''AIMMeeUE'' u (ul @ [c]) else t1) = t2"
    proof (cases "c \<in> set ul")
      case True
      have "topo_set t1 ''AIMMeeUE'' u ul = t1"
        using g1 by (auto simp: topo_set_def topo_get_def fun_upd_idem split: option.splits)
      with True show ?thesis by (simp add: t2_def ul'_def)
    next
      case False
      then show ?thesis by (simp add: t2_def ul'_def)
    qed
    have res: "add_to_current_cell u cur t = (Inr (), t2)"
      using Some cl g1 t1_alt t2_alt by (simp add: add_to_current_cell_def Let_def)
    have sn: "same_nodes t t2"
      using same_nodes_trans[OF same_nodes_set[OF True, of cl']
          same_nodes_set[OF r1[unfolded t1_def], of ul']]
      by (simp add: t1_def t2_def)
    have A: "adj t ''AIMMeeCell'' c = set cl" and B: "adj t ''AIMMeeUE'' u = set ul"
      using cl ul by (simp_all add: adj_def)
    have "adj t2 c' g = adj t c' g \<union> (if c' = ''AIMMeeCell'' \<and> g = c then {u} else {})
                               \<union> (if c' = ''AIMMeeUE'' \<and> g = u then {c} else {})" for c' g
    proof -
      have "adj t2 c' g = (if c' = ''AIMMeeUE'' \<and> g = u then set ul'
                          else if c' = ''AIMMeeCell'' \<and> g = c then set cl'
                          else adj t c' g)"
        using True r1 by (simp add: t2_def t1_def adj_set)
      then show ?thesis
        using A B by (auto simp: cl'_def ul'_def)
    qed
    with sn res True Some show ?thesis unfolding edge_added_def by blast
  qed
qed

lemma topo_inv_added:
  "topo_inv t \<Longrightarrow> registered t ca ga \<Longrightarrow> registered t cb gb \<Longrightarrow> edge_added t t' ca ga cb gb \<Longrightarrow> topo_inv t'"
  unfolding topo_inv_def using sym_edge_added same_nodes_one_class
  by (metis edge_added_def)

lemma topo_inv_removed:
  "topo_inv t \<Longrightarrow> registered t ca ga \<Longrightarrow> registered t cb gb \<Longrightarrow> edge_removed t t' ca ga cb gb \<Longrightarrow> topo_inv t'"
  unfolding topo_inv_def using sym_edge_removed same_nodes_one_class
  by (metis edge_removed_def)

lemma update_ue_topology_inv:
  assumes inv: "topo_inv (topology s)" and ru: "registered (topology s) ''AIMMeeUE'' (guid ue)"
  shows "topo_inv (topology (snd (update_ue_topology ue s)))
       \<and> same_nodes (topology s) (topology (snd (update_ue_topology ue s)))"
proof (cases "last_cell_guid ue \<noteq> current_cell_guid ue")
  case False
  then show ?thesis using inv by (simp add: update_ue_topology_def)
next
  case True
  define rem where "rem = (case last_cell_guid ue of None \<Rightarrow> (Inr (), topology s)
                  | Some l \<Rightarrow> remove_from_last_cell (guid ue) l (topology s))"
  have rem_ok: "topo_inv (snd rem) \<and> same_nodes (topology s) (snd rem)"
  proof (cases "last_cell_guid ue")
    case None
    then show ?thesis using inv by (simp add: rem_def)
  next
    case (Some l)
    from remove_from_last_cell_edge[OF ru, of l] show ?thesis
    proof (elim disjE conjE exE)
      assume "remove_from_last_cell (guid ue) l (topology s) = (Inl KeyError, topology s)"
      with Some inv show ?thesis by (simp add: rem_def)
    next
      fix t' assume a: "registered (topology s) ''AIMMeeCell'' l"
        "remove_from_last_cell (guid ue) l (topology s) = (Inr (), t')"
        "edge_removed (topology s) t' ''AIMMeeCell'' l ''AIMMeeUE'' (guid ue)"
      from topo_inv_removed[OF inv a(1) ru a(3)] a Some show ?thesis
        by (simp add: rem_def edge_removed_def)
    qed
  qed
  obtain r t1 where rt: "rem = (r, t1)" by (cases rem)
  from rem_ok rt have inv1: "topo_inv t1" and sn1: "same_nodes (topology s) t1" by simp_all
  show ?thesis
  proof (cases r)
    case (Inl e)
    then have "update_ue_topology ue s = (Inl e, s\<lparr>topology := t1\<rparr>)"
      using True rt unfolding update_ue_topology_def rem_def[symmetric] by simp
    with inv1 sn1 show ?thesis by simp
  next
    case (Inr x)
    have ru1: "registered t1 ''AIMMeeUE'' (guid ue)"
      using sn1 ru by (simp add: same_nodes_def)
    have upd: "update_ue_topology ue s =
        (fst (add_to_current_cell (guid ue) (current_cell_guid ue) t1),
         s\<lparr>topology := snd (add_to_current_cell (guid ue) (current_cell_guid ue) t1)\<rparr>)"
      using True rt Inr unfolding update_ue_topology_def rem_def[symmetric]
      by (simp split: prod.splits)
    have "topo_inv (snd (add_to_current_cell (guid ue) (current_cell_guid ue) t1))
        \<and> same_nodes t1 (snd (add_to_current_cell (guid ue) (current_cell_guid ue) t1))"
      using add_to_current_cell_edge[OF ru1, of "current_cell_guid ue"]
    proof (elim disjE conjE exE)
      assume "add_to_current_cell (guid ue) (current_cell_guid ue) t1 = (Inl KeyError, t1)"
      with inv1 show ?thesis by simp
    next
      fix c t'
      assume a: "registered t1 ''AIMMeeCell'' c"
        "add_to_current_cell (guid ue) (current_cell_guid ue) t1 = (Inr (), t')"
        "edge_added t1 t' ''AIMMeeCell'' c ''AIMMeeUE'' (guid ue)"
      from topo_inv_added[OF inv1 a(1) ru1 a(3)] a show ?thesis
        by (simp add: edge_added_def)
    qed
    with upd sn1 show ?thesis
      using same_nodes_trans[of "topology s" t1] by auto
  qed
qed


lemma update_cell_guid_guid: "update_cell_guid ue = Inr ue' \<Longrightarrow> guid ue' = guid ue"
  by (auto simp: update_cell_guid_def split: option.splits if_splits)

lemma run_op_inv:
  assumes inv: "topo_inv (topology s)" and sn: "same_nodes t0 (topology s)" and ok: "op_ok t0 op"
  shows "topo_inv (topology (run_op op s)) \<and> same_nodes t0 (topology (run_op op s))"
proof (cases op)
  case (Link a b)
  from inv have "link_symmetric (topology s)" "one_class (topology s)" by (simp_all add: topo_inv_def)
  from register_link_inv[OF this, of a b] inv sn Link show ?thesis
    using same_nodes_trans[of t0 "topology s"] same_nodes_one_class
    by (auto simp: topo_inv_def)
next
  case (Unlink a b)
  with ok have "deregister_link a b s = (Inl AttributeError, s)" by (simp add: deregister_link_def)
  with inv sn Unlink show ?thesis by simp
next
  case (UE_tick ue)
  show ?thesis
  proof (cases "update_cell_guid ue")
    case (Inl e)
    with UE_tick inv sn show ?thesis by (simp add: AIMMeeUE_loop_body_def)
  next
    case (Inr ue')
    then have g: "guid ue' = guid ue" by (rule update_cell_guid_guid)
    from ok UE_tick sn have "registered (topology s) ''AIMMeeUE'' (guid ue')"
      by (simp add: same_nodes_def g)
    from update_ue_topology_inv[OF inv this] UE_tick Inr sn show ?thesis
      using same_nodes_trans[of t0 "topology s"]
      by (auto simp: AIMMeeUE_loop_body_def split: prod.splits)
  qed
qed

lemma run_ops_inv:
  assumes "topo_inv (topology s)" and "same_nodes t0 (topology s)" and "\<forall>op\<in>set ops. op_ok t0 op"
  shows "topo_inv (topology (run_ops ops s)) \<and> same_nodes t0 (topology (run_ops ops s))"
  using assms
proof (induction ops arbitrary: s)
  case Nil
  then show ?case by (simp add: run_ops_def)
next
  case (Cons op ops)
  from run_op_inv[OF Cons.prems(1,2), of op] Cons.prems(3)
  have "topo_inv (topology (run_op op s))" "same_nodes t0 (topology (run_op op s))" by simp_all
  from Cons.IH[OF this] Cons.prems(3) show ?case by (simp add: run_ops_def)
qed

text \<open>
  C1. Start from a topology that is symmetric and in which no GUID is registered under two
  class names, and run any sequence of \<^verbatim>\<open>register_link\<close> calls, \<^verbatim>\<open>deregister_link\<close>
  calls (on nodes built by the constructors) and loop iterations of UEs registered under
  \<^verbatim>\<open>AIMMeeUE\<close>, failed calls included. Then for all nodes A and B registered afterwards,
  B's GUID is in A's adjacency list if and only if A's GUID is in B's.
\<close>

theorem link_symmetry_invariant:
  assumes "link_symmetric (topology s)" and "one_class (topology s)"
      and "list_all (op_ok (topology s)) ops"
      and "topo_get (topology (run_ops ops s)) ca ga = Some la"
      and "topo_get (topology (run_ops ops s)) cb gb = Some lb"
  shows "gb \<in> set la \<longleftrightarrow> ga \<in> set lb"
proof -
  have "topo_inv (topology (run_ops ops s))"
    using run_ops_inv[of s "topology s" ops] assms(1-3) by (simp add: topo_inv_def list_all_iff)
  then have "link_symmetric (topology (run_ops ops s))" by (simp add: topo_inv_def)
  with assms(4,5) show ?thesis unfolding link_symmetric_def by blast
qed

lemma sim3_topology: "topology sim3 = topo3"
  by (simp add: sim3_eval)

lemma topo3_symmetric: "link_symmetric topo3"
  by (auto simp: link_symmetric_def topo3_def topo_get_def split: option.splits if_splits)

lemma topo3_one_class: "one_class topo3"
  by (auto simp: one_class_def registered_def topo3_def topo_get_def split: option.splits if_splits)

lemma ops3_ok: "list_all (op_ok topo3) ops3"
  by (simp add: ops3_def registered_def topo3_def topo_get_def cell2_obj_def ue3_def
      ue3_moving_def)

lemmas ue_defs = AIMMeeUE_loop_body_def update_cell_guid_def update_ue_topology_def
  remove_from_last_cell_def add_to_current_cell_def

lemma ops3_run:
  "topo_get (topology (run_ops ops3 sim3)) ''AIMMeeCell'' 2 = Some [3]"
  "topo_get (topology (run_ops ops3 sim3)) ''AIMMeeUE'' 3 = Some [2]"
  "topo_get (topology (run_ops ops3 sim3)) ''AIMMeeCell'' 1 = Some []"
  by (simp_all add: run_ops_def ops3_def sim3_eval topo3_def ue_defs
      register_link_def deregister_link_def topo_get_def topo_set_def
      remove_while_removeAll Let_def ue3_def ue3_moving_def cell_ref_def ue3_ref_def
      cell2_obj_def)

theorem link_symmetry_invariant_witness:
  "link_symmetric (topology sim3) \<and> one_class (topology sim3)
   \<and> list_all (op_ok (topology sim3)) ops3
   \<and> topo_get (topology (run_ops ops3 sim3)) ''AIMMeeCell'' 2 = Some [3]
   \<and> topo_get (topology (run_ops ops3 sim3)) ''AIMMeeUE'' 3 = Some [2]
   \<and> ((3::int) \<in> set [3] \<longleftrightarrow> (2::int) \<in> set [2])"
proof -
  have a: "link_symmetric (topology sim3)" and b: "one_class (topology sim3)"
    and c: "list_all (op_ok (topology sim3)) ops3"
    using topo3_symmetric topo3_one_class ops3_ok by (simp_all add: sim3_topology)
  from link_symmetry_invariant[OF a b c ops3_run(1) ops3_run(2)] a b c ops3_run
  show ?thesis by simp
qed

subsection \<open>Unlinking\<close>

lemma sim_cell_eval:
  "sim_cell = \<lparr>topology = [''AIMMeeCell'' \<mapsto> [1 \<mapsto> []]], guid_map = [1 \<mapsto> as_ref cell1],
      cells = [as_ref cell1], UEs = [], raps = [], rus = [], rrhs = []\<rparr>"
  by (simp add: sim_cell_def make_cell_def AIMMeeCell_init_def SimObject_init_def add_to_sim_def
      Let_def Sim_init_def rec_defs as_ref_def cell1_def)

lemma make_cell_1: "fst (make_cell 1 Sim_init) = Inr cell1"
  by (simp add: make_cell_def AIMMeeCell_init_def SimObject_init_def 
      Let_def rec_defs cell1_def split: prod.splits)

lemma rap2_made: "fst (make_RadioAccessPoint 2 (Some (as_ref cell1)) True 1 sim_cell) = Inr rap2"
  by (simp add: sim_cell_eval make_RadioAccessPoint_def RadioAccessPoint_init_def SimObject_init_def
      add_to_sim_def register_link_def topo_get_def topo_set_def
      Let_def rec_defs as_ref_def cell1_def rap2_def)

lemma sim_cell_rap_topo:
  "topo_get (topology sim_cell_rap) ''RadioAccessPoint'' 2 = Some [1]"
  "topo_get (topology sim_cell_rap) ''AIMMeeCell'' 1 = Some [2]"
  by (simp_all add: sim_cell_rap_def sim_cell_eval make_RadioAccessPoint_def RadioAccessPoint_init_def SimObject_init_def
      add_to_sim_def register_link_def topo_get_def topo_set_def
      Let_def rec_defs as_ref_def cell1_def rap2_def)

text \<open>
  C4 (the code at the failing input). A cell (object identity 1) and a RadioAccessPoint
  (identity 2) made by the factories are linked by the constructor of the access point.
  \<^verbatim>\<open>rap.deregister_link(cell)\<close> then raises \<^verbatim>\<open>AttributeError\<close> at \<^verbatim>\<open>self._sim\<close>, an
  attribute that no class assigns, and the simulation keeps both directions of the link:
  the adjacency lists are not restored to the empty lists they were before.
\<close>

theorem deregister_link_raises:
  "fst (make_cell 1 Sim_init) = Inr cell1
   \<and> topo_get (topology sim_cell) ''AIMMeeCell'' 1 = Some []
   \<and> fst (make_RadioAccessPoint 2 (Some (as_ref cell1)) True 1 sim_cell) = Inr rap2
   \<and> topo_get (topology sim_cell_rap) ''RadioAccessPoint'' 2 = Some [1]
   \<and> topo_get (topology sim_cell_rap) ''AIMMeeCell'' 1 = Some [2]
   \<and> deregister_link rap2 cell1 sim_cell_rap = (Inl AttributeError, sim_cell_rap)"
proof -
  have "topo_get (topology sim_cell) ''AIMMeeCell'' 1 = Some []"
    by (simp add: sim_cell_eval topo_get_def)
  moreover have "deregister_link rap2 cell1 sim_cell_rap = (Inl AttributeError, sim_cell_rap)"
    by (simp add: deregister_link_def rap2_def)
  ultimately show ?thesis
    using make_cell_1 rap2_made sim_cell_rap_topo by simp
qed

subsection \<open>UE re-attachment\<close>

text \<open>
  C2. A UE whose \<^verbatim>\<open>current_cell_guid\<close> is the GUID \<open>x\<close> of cell X and whose serving cell
  has become cell Y, with another GUID \<open>y\<close>, runs one iteration of its loop; X and Y are
  registered under \<^verbatim>\<open>AIMMeeCell\<close> and the UE under \<^verbatim>\<open>AIMMeeUE\<close>. The iteration returns
  normally; afterwards the UE's GUID is absent from X's adjacency list and present in
  Y's, \<^verbatim>\<open>last_cell_guid\<close> is \<open>x\<close> and \<^verbatim>\<open>current_cell_guid\<close> is \<open>y\<close>.
\<close>

theorem ue_reattach:
  assumes cur: "current_cell_guid ue = Some x"
      and srv: "serving_cell ue = Some cy" "guid cy = y" "y \<noteq> x"
      and regx: "topo_get (topology s) ''AIMMeeCell'' x = Some lx"
      and regy: "topo_get (topology s) ''AIMMeeCell'' y = Some ly"
      and regu: "topo_get (topology s) ''AIMMeeUE'' (guid ue) = Some lu"
  shows "\<exists>ue' s' lx' ly'. AIMMeeUE_loop_body ue s = (Inr (), ue', s')
           \<and> topo_get (topology s') ''AIMMeeCell'' x = Some lx' \<and> guid ue \<notin> set lx'
           \<and> topo_get (topology s') ''AIMMeeCell'' y = Some ly' \<and> guid ue \<in> set ly'
           \<and> last_cell_guid ue' = Some x \<and> current_cell_guid ue' = Some y"
proof -
  let ?ue' = "ue\<lparr>last_cell_guid := Some x, current_cell_guid := Some y\<rparr>"
  have upd: "update_cell_guid ue = Inr ?ue'"
    using cur srv by (simp add: update_cell_guid_def)
  have rx: "registered (topology s) ''AIMMeeCell'' x" and ry: "registered (topology s) ''AIMMeeCell'' y"
    and ru: "registered (topology s) ''AIMMeeUE'' (guid ue)"
    using regx regy regu by (simp_all add: registered_def)
  let ?t1 = "topo_set (topology s) ''AIMMeeCell'' x (remove_while (guid ue) lx)"
  let ?t2 = "topo_set ?t1 ''AIMMeeUE'' (guid ue) (remove_while x lu)"
  have rem: "remove_from_last_cell (guid ue) x (topology s) = (Inr (), ?t2)"
    using regx regu rx by (simp add: remove_from_last_cell_def Let_def topo_get_set_reg)
  have r2x: "registered ?t1 ''AIMMeeUE'' (guid ue)" using rx ru by simp
  have gy: "topo_get ?t2 ''AIMMeeCell'' y = Some ly"
    using rx r2x regy srv by (simp add: topo_get_set_reg)
  have gu: "topo_get ?t2 ''AIMMeeUE'' (guid ue) = Some (remove_while x lu)"
    using r2x by (simp add: topo_get_set_reg)
  have gx: "topo_get ?t2 ''AIMMeeCell'' x = Some (remove_while (guid ue) lx)"
    using rx r2x by (simp add: topo_get_set_reg)
  have ry2: "registered ?t2 ''AIMMeeCell'' y" using gy by (simp add: registered_def)
  have ru2: "registered ?t2 ''AIMMeeUE'' (guid ue)" using gu by (simp add: registered_def)
  obtain t3 where add: "add_to_current_cell (guid ue) (Some y) ?t2 = (Inr (), t3)"
    and t3y: "\<exists>ly'. topo_get t3 ''AIMMeeCell'' y = Some ly' \<and> guid ue \<in> set ly'"
    and t3x: "topo_get t3 ''AIMMeeCell'' x = Some (remove_while (guid ue) lx)"
  proof (cases "guid ue \<in> set ly")
    case True
    show ?thesis
      apply (rule that[of "if y \<notin> set (remove_while x lu) then topo_set ?t2 ''AIMMeeUE'' (guid ue) (remove_while x lu @ [y]) else ?t2"])
      using True gy gu gx ry2 ru2 srv
      by (auto simp: add_to_current_cell_def Let_def topo_get_set_reg)
  next
    case False
    let ?t2a = "topo_set ?t2 ''AIMMeeCell'' y (ly @ [guid ue])"
    have gua: "topo_get ?t2a ''AIMMeeUE'' (guid ue) = Some (remove_while x lu)"
      using ry2 gu by (simp add: topo_get_set_reg)
    have rua: "registered ?t2a ''AIMMeeUE'' (guid ue)" using gua by (simp add: registered_def)
    have gya: "topo_get ?t2a ''AIMMeeCell'' y = Some (ly @ [guid ue])"
      using ry2 by (simp add: topo_get_set_reg)
    have gxa: "topo_get ?t2a ''AIMMeeCell'' x = Some (remove_while (guid ue) lx)"
      using ry2 gx srv by (simp add: topo_get_set_reg)
    show ?thesis
      apply (rule that[of "if y \<notin> set (remove_while x lu) then topo_set ?t2a ''AIMMeeUE'' (guid ue) (remove_while x lu @ [y]) else ?t2a"])
      using False gy gua gya gxa rua
      by (auto simp: add_to_current_cell_def Let_def topo_get_set_reg)
  qed
  have "update_ue_topology ?ue' s = (Inr (), s\<lparr>topology := t3\<rparr>)"
    using srv rem add by (simp add: update_ue_topology_def)
  then have body: "AIMMeeUE_loop_body ue s = (Inr (), ?ue', s\<lparr>topology := t3\<rparr>)"
    using upd by (simp add: AIMMeeUE_loop_body_def)
  have "guid ue \<notin> set (remove_while (guid ue) lx)"
    by (simp add: remove_while_removeAll)
  with body t3x t3y show ?thesis by auto
qed


lemma sim3_attached_topology:
  "topo_get (topology sim3_attached) ''AIMMeeCell'' 1 = Some [3]"
  "topo_get (topology sim3_attached) ''AIMMeeCell'' 2 = Some []"
  "topo_get (topology sim3_attached) ''AIMMeeUE'' 3 = Some [1]"
  by (simp_all add: sim3_attached_def run_ops_def sim3_eval topo3_def ue_defs
      topo_get_def topo_set_def Let_def ue3_def cell_ref_def)

theorem ue_reattach_witness:
  "current_cell_guid ue3_moving = Some 1
   \<and> serving_cell ue3_moving = Some (cell_ref 2) \<and> guid (cell_ref 2) = 2 \<and> (2::int) \<noteq> 1
   \<and> topo_get (topology sim3_attached) ''AIMMeeCell'' 1 = Some [3]
   \<and> topo_get (topology sim3_attached) ''AIMMeeCell'' 2 = Some []
   \<and> topo_get (topology sim3_attached) ''AIMMeeUE'' (guid ue3_moving) = Some [1]
   \<and> (\<exists>ue' s' lx' ly'. AIMMeeUE_loop_body ue3_moving sim3_attached = (Inr (), ue', s')
           \<and> topo_get (topology s') ''AIMMeeCell'' 1 = Some lx' \<and> guid ue3_moving \<notin> set lx'
           \<and> topo_get (topology s') ''AIMMeeCell'' 2 = Some ly' \<and> guid ue3_moving \<in> set ly'
           \<and> last_cell_guid ue' = Some 1 \<and> current_cell_guid ue' = Some 2)"
proof -
  have h1: "current_cell_guid ue3_moving = Some 1"
    and h2: "serving_cell ue3_moving = Some (cell_ref 2)"
    and h3: "guid (cell_ref 2) = 2"
    and g: "guid ue3_moving = 3"
    by (simp_all add: ue3_moving_def ue3_def cell_ref_def)
  have h4: "(2::int) \<noteq> 1" by simp
  have h7: "topo_get (topology sim3_attached) ''AIMMeeUE'' (guid ue3_moving) = Some [1]"
    using sim3_attached_topology(3) by (simp add: g)
  from ue_reattach[OF h1 h2 h3 h4 sim3_attached_topology(1) sim3_attached_topology(2) h7]
    h1 h2 h3 h7 sim3_attached_topology
  show ?thesis by simp
qed

subsection \<open>The power model and the event loop\<close>

text \<open>
  C9 (the code at the failing input). \<^verbatim>\<open>SimObject.__init__\<close> never assigns
  \<^verbatim>\<open>_power_model\<close>, so on a node whose power model has not been set the getter raises
  \<^verbatim>\<open>AttributeError\<close> at \<^verbatim>\<open>self._power_model\<close>: it neither returns \<^verbatim>\<open>None\<close> nor prints the
  notice of its first branch. This is so for a bare SimObject of any class and for a new
  cell, UE and antenna panel.
\<close>

theorem power_model_unset_raises:
  "power_model (fst (SimObject_init self_id cls pre s)) = Inl AttributeError
   \<and> power_model (fst (AIMMeeCell_init self_id s)) = Inl AttributeError
   \<and> power_model (fst (AIMMeeUE_init self_id s)) = Inl AttributeError
   \<and> power_model (fst (AntennaPanel_init self_id s)) = Inl AttributeError"
  by (simp add: power_model_def SimObject_init_def AIMMeeCell_init_def AIMMeeUE_init_def
      AntennaPanel_init_def Let_def rec_defs split: prod.splits)

text \<open>
  C5 (as amended). The loop of a DistributedUnit, and of every other node that uses this
  loop, only waits: after any number \<open>n\<close> of iterations the node and the simulation are
  what they were, and the clock has advanced by \<open>n\<close> intervals. No energy is accumulated;
  the source has no accumulator attribute.
\<close>

theorem loop_only_waits:
  "loop n self s now = (self, s, now + real n * interval self)"
  by (induction n arbitrary: now) (simp_all add: loop_body_def algebra_simps)

text \<open>
  The claim as stated fails (C5): a DistributedUnit with \<^verbatim>\<open>power_model = 10.0\<close> and
  \<^verbatim>\<open>interval = 1.0\<close> is, after five iterations of its loop, the object it was; it has no
  attribute \<^verbatim>\<open>accumulated_joules\<close>, and none of its float attributes is 50.
\<close>

theorem energy_accumulation_counterexample:
  "fst (DistributedUnit_init 1 Sim_init) = Inr du_default
   \<and> power_model_setter (du_default\<lparr>interval := 1\<rparr>) (PNum 10) = Inr du_P10
   \<and> power_model du_P10 = Inr (PNum 10) \<and> interval du_P10 = 1
   \<and> fst (loop 5 du_P10 (snd (DistributedUnit_init 1 Sim_init)) 0) = du_P10
   \<and> map_of (float_attributes (fst (loop 5 du_P10 (snd (DistributedUnit_init 1 Sim_init)) 0)))
        ''accumulated_joules'' = None
   \<and> 50 \<notin> snd ` set (float_attributes (fst (loop 5 du_P10 (snd (DistributedUnit_init 1 Sim_init)) 0)))"
proof -
  have 1: "fst (DistributedUnit_init 1 Sim_init) = Inr du_default"
    by (simp add: DistributedUnit_init_def SimObject_init_def example_DU_power_model_def
        du_power_defaults_def power_model_setter_def du_default_def Let_def rec_defs
        split: prod.splits)
  have 2: "power_model_setter (du_default\<lparr>interval := 1\<rparr>) (PNum 10) = Inr du_P10"
    by (simp add: power_model_setter_def du_P10_def)
  have 3: "power_model du_P10 = Inr (PNum 10) \<and> interval du_P10 = 1"
    by (simp add: power_model_def du_P10_def du_default_def)
  have 4: "fst (loop 5 du_P10 s 0) = du_P10" for s
    by (simp add: loop_keeps_self)
  have 5: "map_of (float_attributes du_P10) ''accumulated_joules'' = None"
    by (simp add: float_attributes_def du_P10_def du_default_def)
  have 6: "50 \<notin> snd ` set (float_attributes du_P10)"
    by (simp add: float_attributes_def du_P10_def du_default_def)
  from 1 2 3 4 5 6 show ?thesis by simp
qed

text \<open>
  C6 (as amended). \<^verbatim>\<open>example_CU_power_model\<close> maps a load \<open>d\<close> to \<open>(1 - d) * 656.25\<close>
  watts, so a load of 0.4 to 393.75 watts. The power
  model of a CentralisedUnit, however, is the constant computed by its constructor from
  the load 0.0, that is 656.25 watts, and \<^verbatim>\<open>attach_to_du\<close> leaves it as it is, whatever the
  load of the attached DistributedUnit.
\<close>

theorem cu_power_fixed_at_construction:
  "example_CU_power_model du_load = (1 - du_load) * 656.25
   \<and> example_CU_power_model 0.4 = 393.75
   \<and> (CentralisedUnit_init self_id s = (Inr cu, s') \<longrightarrow> power_model cu = Inr (PNum 656.25))
   \<and> power_model (fst (snd (attach_to_du cu1 du s1))) = power_model cu1"
proof -
  have a: "example_CU_power_model 0.4 = 393.75"
    by (simp add: example_CU_power_model_def)
  have b: "power_model cu = Inr (PNum 656.25)" if "CentralisedUnit_init self_id s = (Inr cu, s')"
    using that
    by (auto simp: CentralisedUnit_init_def SimObject_init_def power_model_setter_def
        power_model_def example_CU_power_model_def rec_defs split: prod.splits sum.splits)
  have c: "power_model (fst (snd (attach_to_du cu1 du s1))) = power_model cu1"
    by (auto simp: attach_to_du_def Let_def power_model_def split: option.splits prod.splits)
  have d: "example_CU_power_model du_load = (1 - du_load) * 656.25"
    by (simp add: example_CU_power_model_def)
  from a b c d show ?thesis by blast
qed

lemma cu_new_made: "CentralisedUnit_init 2 s = (Inr cu_new, snd (SimObject_init 2 ''CentralisedUnit'' None s))"
  by (simp add: CentralisedUnit_init_def SimObject_init_def power_model_setter_def
        example_CU_power_model_def rec_defs cu_new_def Let_def)

theorem cu_power_fixed_at_construction_witness:
  "CentralisedUnit_init 2 Sim_init = (Inr cu_new, snd (SimObject_init 2 ''CentralisedUnit'' None Sim_init))
   \<and> power_model cu_new = Inr (PNum 656.25)
   \<and> power_model (fst (snd (attach_to_du cu_new du_load04 Sim_init))) = power_model cu_new"
  using cu_power_fixed_at_construction[of "4 / 10" 2 Sim_init cu_new
      "snd (SimObject_init 2 ''CentralisedUnit'' None Sim_init)" cu_new du_load04 Sim_init]
    cu_new_made[of Sim_init]
  by simp

text \<open>
  The claim as stated fails (C6): a DistributedUnit brought to \<^verbatim>\<open>p_load = 0.4\<close> (supply of
  1560 watts) is attached to a new CentralisedUnit; the unit then holds it in \<^verbatim>\<open>du\<close>, and
  its power model is 656.25 watts, not 393.75.
\<close>

theorem cu_du_coupling_counterexample:
  "snd (example_DU_power_model du_default (du_power_defaults\<lparr>P_supply_max := 1560\<rparr>)) = du_load04
   \<and> p_load du_load04 = 0.4
   \<and> fst (CentralisedUnit_init 2 (snd (DistributedUnit_init 1 Sim_init))) = Inr cu_new
   \<and> cu_du (fst (snd (attach_to_du cu_new du_load04 (snd (CentralisedUnit_init 2 (snd (DistributedUnit_init 1 Sim_init))))))) = Some du_load04
   \<and> power_model (fst (snd (attach_to_du cu_new du_load04 (snd (CentralisedUnit_init 2 (snd (DistributedUnit_init 1 Sim_init))))))) = Inr (PNum 656.25)
   \<and> (656.25::real) \<noteq> 393.75"
proof -
  have 1: "snd (example_DU_power_model du_default (du_power_defaults\<lparr>P_supply_max := 1560\<rparr>)) = du_load04"
    by (simp add: example_DU_power_model_def du_power_defaults_def du_default_def du_load04_def Let_def)
  have 2: "p_load du_load04 = 0.4" by (simp add: du_load04_def)
  have 3: "cu_du (fst (snd (attach_to_du cu_new du_load04 s))) = Some du_load04" for s
    by (simp add: attach_to_du_def Let_def cu_new_def)
  have 4: "power_model (fst (snd (attach_to_du cu_new du_load04 s))) = Inr (PNum 656.25)" for s
    by (simp add: attach_to_du_def Let_def cu_new_def power_model_def)
  from 1 2 3 4 cu_new_made show ?thesis by simp
qed

subsection \<open>The ports of a RemoteRadioHead\<close>

lemma RRH_init_obj:
  assumes "RemoteRadioHead_init self_id rap ru du n fh s = (Inr rrh, s')"
  shows "\<exists>c. rrh = (make_fronthaul_ports (sim_object.extend (fst (SimObject_init self_id ''RemoteRadioHead'' None s))
                        (remote_radio_head.fields None rap ru None n
                           (if n > 0 then make_rf_ports n else make_rf_ports 2)
                           Map.empty 0 Map.empty)) (arg_n_ports fh) (arg_protocol fh)
                        (arg_data_rate_Gbps_max fh))\<lparr>rrh_cell := c\<rparr>"
proof -
  obtain b s1 where bs: "SimObject_init self_id ''RemoteRadioHead'' None s = (b, s1)"
    by (cases "SimObject_init self_id ''RemoteRadioHead'' None s")
  let ?self1 = "make_fronthaul_ports (sim_object.extend b
                        (remote_radio_head.fields None rap ru None n
                           (if n > 0 then make_rf_ports n else make_rf_ports 2)
                           Map.empty 0 Map.empty)) (arg_n_ports fh) (arg_protocol fh)
                        (arg_data_rate_Gbps_max fh)"
  let ?self2 = "(case rap of None \<Rightarrow> ?self1 | Some r \<Rightarrow> ?self1\<lparr>rrh_cell := rap_cell r\<rparr>)"
  from assms have eq: "rrh = ?self2"
    unfolding RemoteRadioHead_init_def bs Let_def prod.case seq_Inr by auto
  have none: "?self1\<lparr>rrh_cell := None\<rparr> = ?self1"
    by (simp add: make_fronthaul_ports_def sim_object.defs remote_radio_head.defs)
  show ?thesis
  proof (cases rap)
    case None
    with eq none have "rrh = ?self1\<lparr>rrh_cell := None\<rparr>" by simp
    with bs show ?thesis by auto
  next
    case (Some r)
    with eq have "rrh = ?self1\<lparr>rrh_cell := rap_cell r\<rparr>" by simp
    with bs show ?thesis by auto
  qed
qed

lemma RRH_init_fields:
  assumes "RemoteRadioHead_init self_id rap ru du n fh s = (Inr rrh, s')"
  shows "port_store rrh = [0 \<mapsto> \<lparr>protocol = arg_protocol fh, data_rate_Gbps = 0, data_rate_Gbps_max = 10\<rparr>]"
    and "priv_default_port_params rrh = 0"
    and "priv_fronthaul_ports rrh = (\<lambda>i. if 0 \<le> i \<and> i < arg_n_ports fh then Some 0 else None)"
    and "rf_ports rrh = (if n > 0 then make_rf_ports n else make_rf_ports 2)"
    and "guid rrh = self_id" and "class_name rrh = ''RemoteRadioHead''"
  using RRH_init_obj[OF assms]
  by (auto simp: make_fronthaul_ports_def SimObject_init_def Let_def rec_defs)

lemma RRH_init_ignores_rate:
  "RemoteRadioHead_init self_id rap ru du n (fh\<lparr>arg_data_rate_Gbps_max := r\<rparr>) s
     = RemoteRadioHead_init self_id rap ru du n fh s"
  by (simp add: RemoteRadioHead_init_def make_fronthaul_ports_def)

text \<open>
  C10. For a RemoteRadioHead that its constructor has built, every port index \<open>i\<close> of the
  fronthaul dictionary (\<open>0 \<le> i < n_ports\<close>) gives, through \<^verbatim>\<open>get_fronthaul_port\<close>, the one
  dictionary bound to \<^verbatim>\<open>_default_port_params\<close>; it holds the protocol passed in, a data rate
  of 0.0 and a maximum of 10.0. The maximum passed to the constructor has no effect: with any
  other value the constructor returns the same object and the same simulation.
\<close>

theorem fronthaul_ports_shared_default:
  assumes "RemoteRadioHead_init self_id rap ru du n fh s = (Inr rrh, s')"
      and "0 \<le> i" and "i < arg_n_ports fh"
  shows "get_fronthaul_port rrh prot i = Inr (priv_default_port_params rrh)
     \<and> port_store rrh (priv_default_port_params rrh)
           = Some \<lparr>protocol = arg_protocol fh, data_rate_Gbps = 0, data_rate_Gbps_max = 10\<rparr>
     \<and> RemoteRadioHead_init self_id rap ru du n (fh\<lparr>arg_data_rate_Gbps_max := r\<rparr>) s = (Inr rrh, s')"
  using RRH_init_fields(1-3)[OF assms(1)] assms RRH_init_ignores_rate
  by (simp add: get_fronthaul_port_def)


lemma make_rf_ports_2: "make_rf_ports 2 = [free_port, free_port]"
  by (simp add: make_rf_ports_def free_port_def upt_rec eval_nat_numeral)

lemma rrh10_init:
  "RemoteRadioHead_init 10 None None None 2 fronthaul_default Sim_init = (Inr rrh10, sim_rrh10)"
  by (simp add: RemoteRadioHead_init_def SimObject_init_def add_to_sim_def
      make_fronthaul_ports_def make_rf_ports_2 fronthaul_default_def Sim_init_def Let_def
      rec_defs as_ref_def rrh10_def sim_rrh10_def)

theorem fronthaul_ports_shared_default_witness:
  "RemoteRadioHead_init 10 None None None 2 fronthaul_default Sim_init = (Inr rrh10, sim_rrh10)
   \<and> (0::int) \<le> 1 \<and> 1 < arg_n_ports fronthaul_default
   \<and> get_fronthaul_port rrh10 ''CPRI'' 1 = Inr (priv_default_port_params rrh10)
   \<and> port_store rrh10 (priv_default_port_params rrh10)
        = Some \<lparr>protocol = ''CPRI'', data_rate_Gbps = 0, data_rate_Gbps_max = 10\<rparr>
   \<and> RemoteRadioHead_init 10 None None None 2
        (fronthaul_default\<lparr>arg_data_rate_Gbps_max := 25\<rparr>) Sim_init = (Inr rrh10, sim_rrh10)"
proof -
  have a: "(0::int) \<le> 1" by simp
  have b: "1 < arg_n_ports fronthaul_default" by (simp add: fronthaul_default_def)
  from fronthaul_ports_shared_default[OF rrh10_init a b, of "''CPRI''" 25] rrh10_init a b
  show ?thesis by (simp add: fronthaul_default_def)
qed

subsection \<open>Antenna panels\<close>

lemma rrh10_made:
  "make_RemoteRadioHead 10 None None None 2 fronthaul_default Sim_init
     = (Inr rrh10, \<lparr>topology = [''RemoteRadioHead'' \<mapsto> [10 \<mapsto> []]],
          guid_map = [10 \<mapsto> \<lparr>guid = 10, class_name = ''RemoteRadioHead''\<rparr>],
          cells = [], UEs = [], raps = [], rus = [],
          rrhs = [\<lparr>guid = 10, class_name = ''RemoteRadioHead''\<rparr>]\<rparr>)"
  by (simp add: make_RemoteRadioHead_def RemoteRadioHead_init_def SimObject_init_def add_to_sim_def
      make_fronthaul_ports_def make_rf_ports_2 fronthaul_default_def Sim_init_def Let_def
      rec_defs as_ref_def rrh10_def)

lemmas call_defs = make_AntennaPanel_def AntennaPanel_init_def SimObject_init_def add_to_sim_def
  register_link_def topo_get_def topo_set_def Let_def as_ref_def rec_defs

lemma panels_1_eval:
  "panels_1 = (Inr \<lparr>guid = 11, class_name = ''AntennaPanel'', interval = 0, priv_power_model = None,
                     has_priv_sim = False, priv_guid = None\<rparr>,
               rrh10\<lparr>rf_ports := [free_port\<lparr>antenna_panel := Some (panel_ref 11)\<rparr>, free_port]\<rparr>,
               \<lparr>topology = [''RemoteRadioHead'' \<mapsto> [10 \<mapsto> [11]], ''AntennaPanel'' \<mapsto> [11 \<mapsto> [10]]],
                guid_map = [10 \<mapsto> \<lparr>guid = 10, class_name = ''RemoteRadioHead''\<rparr>, 11 \<mapsto> panel_ref 11],
                cells = [], UEs = [], raps = [], rus = [],
                rrhs = [\<lparr>guid = 10, class_name = ''RemoteRadioHead''\<rparr>]\<rparr>)"
  unfolding panels_1_def panels_0_def rrh10_made snd_conv
  by (simp add: call_defs rrh10_def free_port_def panel_ref_def fun_upd_twist)


lemma panels_2_eval:
  "panels_2 = (Inl PyException,
               rrh10\<lparr>rf_ports := [free_port\<lparr>antenna_panel := Some (panel_ref 11)\<rparr>, free_port]\<rparr>,
               \<lparr>topology = [''RemoteRadioHead'' \<mapsto> [10 \<mapsto> [11, 12]],
                            ''AntennaPanel'' \<mapsto> [11 \<mapsto> [10], 12 \<mapsto> [10]]],
                guid_map = [10 \<mapsto> \<lparr>guid = 10, class_name = ''RemoteRadioHead''\<rparr>,
                            11 \<mapsto> panel_ref 11, 12 \<mapsto> panel_ref 12],
                cells = [], UEs = [], raps = [], rus = [],
                rrhs = [\<lparr>guid = 10, class_name = ''RemoteRadioHead''\<rparr>]\<rparr>)"
  unfolding panels_2_def panels_1_eval snd_conv fst_conv
  by (simp add: call_defs rrh10_def free_port_def panel_ref_def fun_upd_twist)

lemma panels_3_eval:
  "panels_3 = (Inl PyException,
               rrh10\<lparr>rf_ports := [free_port\<lparr>antenna_panel := Some (panel_ref 11)\<rparr>, free_port]\<rparr>,
               \<lparr>topology = [''RemoteRadioHead'' \<mapsto> [10 \<mapsto> [11, 12, 13]],
                            ''AntennaPanel'' \<mapsto> [11 \<mapsto> [10], 12 \<mapsto> [10], 13 \<mapsto> [10]]],
                guid_map = [10 \<mapsto> \<lparr>guid = 10, class_name = ''RemoteRadioHead''\<rparr>,
                            11 \<mapsto> panel_ref 11, 12 \<mapsto> panel_ref 12, 13 \<mapsto> panel_ref 13],
                cells = [], UEs = [], raps = [], rus = [],
                rrhs = [\<lparr>guid = 10, class_name = ''RemoteRadioHead''\<rparr>]\<rparr>)"
  unfolding panels_3_def panels_2_eval snd_conv fst_conv
  by (simp add: call_defs rrh10_def free_port_def panel_ref_def fun_upd_twist)

lemma guid_map_add_to_sim:
  "guid_map (snd (add_to_sim x s)) k =
     (if k = guid x \<and> guid_map s k = None then Some (as_ref x) else guid_map s k)"
  by (auto simp: add_to_sim_def Let_def split: option.splits)

lemma registered_add_to_sim_self:
  "registered (topology (snd (add_to_sim x s))) (class_name x) (guid x)"
  by (auto simp: add_to_sim_def Let_def registered_def topo_get_def split: option.splits)

lemma registered_add_to_sim_mono:
  "registered (topology s) c g \<Longrightarrow> registered (topology (snd (add_to_sim x s))) c g"
  by (auto simp: add_to_sim_def Let_def registered_def topo_get_def split: option.splits)

lemma registered_register_link:
  "registered (topology (snd (register_link a b s))) c g = registered (topology s) c g"
proof (cases "registered (topology s) (class_name a) (guid a) \<and> registered (topology s) (class_name b) (guid b)")
  case True
  then obtain t' where "register_link a b s = (Inr (), s\<lparr>topology := t'\<rparr>)"
    "edge_added (topology s) t' (class_name a) (guid a) (class_name b) (guid b)"
    using register_link_edge by blast
  then show ?thesis by (simp add: edge_added_def same_nodes_def)
next
  case False
  then show ?thesis by (simp add: register_link_KeyError)
qed

lemma AntennaPanel_init_obj:
  "fst (AntennaPanel_init i s) = \<lparr>guid = i, class_name = ''AntennaPanel'', interval = 0,
      priv_power_model = None, has_priv_sim = False, priv_guid = None\<rparr>"
  "snd (AntennaPanel_init i s) = snd (add_to_sim (fst (AntennaPanel_init i s)) s)"
  by (simp_all add: AntennaPanel_init_def SimObject_init_def Let_def)

lemma make_AntennaPanel_guid_map:
  assumes "guid_map s i = None"
  shows "guid_map (snd (snd (make_AntennaPanel rrh i s))) i = Some (panel_ref i)"
  using assms
  by (simp add: make_AntennaPanel_sim guid_map_add_to_sim AntennaPanel_init_obj as_ref_def panel_ref_def)

lemma make_AntennaPanel_registered:
  "registered (topology (snd (snd (make_AntennaPanel rrh i s)))) ''AntennaPanel'' i"
proof -
  have "registered (topology (snd (AntennaPanel_init i s))) ''AntennaPanel'' i"
    using registered_add_to_sim_self[of "fst (AntennaPanel_init i s)" s]
    by (simp add: AntennaPanel_init_obj)
  then show ?thesis
    by (simp add: make_AntennaPanel_sim registered_register_link registered_add_to_sim_mono)
qed

lemma make_AntennaPanel_free:
  assumes "rf_ports rrh = p # ps" and "antenna_panel p = None"
  shows "fst (make_AntennaPanel rrh i s) = Inr (fst (AntennaPanel_init i s))"
    and "rf_ports (fst (snd (make_AntennaPanel rrh i s))) = p\<lparr>antenna_panel := Some (panel_ref i)\<rparr> # ps"
proof -
  obtain ap s1 where ap: "AntennaPanel_init i s = (ap, s1)"
    by (cases "AntennaPanel_init i s")
  have a: "add_to_sim rrh s1 = (Inr (), snd (add_to_sim rrh s1))"
    by (simp add: add_to_sim_def Let_def)
  have r1: "registered (topology (snd (add_to_sim rrh s1))) (class_name rrh) (guid rrh)"
    by (rule registered_add_to_sim_self)
  have "registered (topology s1) (class_name ap) (guid ap)"
    using registered_add_to_sim_self[of ap s] AntennaPanel_init_obj(2)[of i s] ap by simp
  then have r2: "registered (topology (snd (add_to_sim rrh s1))) (class_name ap) (guid ap)"
    by (rule registered_add_to_sim_mono)
  from register_link_edge[OF r1 r2] obtain t' where
    rl: "register_link rrh ap (snd (add_to_sim rrh s1)) = (Inr (), snd (add_to_sim rrh s1)\<lparr>topology := t'\<rparr>)"
    by blast
  have ref: "as_ref ap = panel_ref i"
    using AntennaPanel_init_obj(1)[of i s] ap by (simp add: as_ref_def panel_ref_def)
  have m: "make_AntennaPanel rrh i s =
      (Inr ap, rrh\<lparr>rf_ports := p\<lparr>antenna_panel := Some (panel_ref i)\<rparr> # ps\<rparr>,
       snd (add_to_sim rrh s1)\<lparr>topology := t'\<rparr>)"
    unfolding make_AntennaPanel_def ap prod.case
    by (subst a) (simp add: rl assms ref)
  show "fst (make_AntennaPanel rrh i s) = Inr (fst (AntennaPanel_init i s))"
    using m ap by simp
  show "rf_ports (fst (snd (make_AntennaPanel rrh i s))) = p\<lparr>antenna_panel := Some (panel_ref i)\<rparr> # ps"
    using m by simp
qed

text \<open>
  C3 (as amended). \<^verbatim>\<open>make_AntennaPanel\<close> constructs the panel, which registers it, and
  links it before it looks at the RF ports. So when a call fails, the panel it made (a new
  object, whose identity is not yet a key of the GUID map) is in the GUID map and in the
  topology afterwards: nothing is rolled back. And on a RemoteRadioHead built with
  \<^verbatim>\<open>n_rf_ports = 2\<close> the first call succeeds and occupies slot 0, the lowest index, leaving
  slot 1 free.
\<close>

theorem make_AntennaPanel_no_rollback:
  "(make_AntennaPanel rrh i s = (Inl e, rrh', s') \<longrightarrow> guid_map s i = None \<longrightarrow>
      guid_map s' i = Some (panel_ref i) \<and> registered (topology s') ''AntennaPanel'' i)
   \<and> (RemoteRadioHead_init self_id rap ru du 2 fh s0 = (Inr rrh0, s1) \<longrightarrow>
        fst (make_AntennaPanel rrh0 j s1) = Inr (fst (AntennaPanel_init j s1))
        \<and> map antenna_panel (rf_ports (fst (snd (make_AntennaPanel rrh0 j s1))))
            = [Some (panel_ref j), None])"
proof -
  have A: "guid_map s' i = Some (panel_ref i) \<and> registered (topology s') ''AntennaPanel'' i"
    if "make_AntennaPanel rrh i s = (Inl e, rrh', s')" "guid_map s i = None"
  proof -
    from that(1) have "s' = snd (snd (make_AntennaPanel rrh i s))" by simp
    with make_AntennaPanel_guid_map[OF that(2), of rrh] make_AntennaPanel_registered[of rrh i s]
    show ?thesis by simp
  qed
  have B: "fst (make_AntennaPanel rrh0 j s1) = Inr (fst (AntennaPanel_init j s1))
        \<and> map antenna_panel (rf_ports (fst (snd (make_AntennaPanel rrh0 j s1))))
            = [Some (panel_ref j), None]"
    if "RemoteRadioHead_init self_id rap ru du 2 fh s0 = (Inr rrh0, s1)"
  proof -
    from RRH_init_fields(4)[OF that] have p: "rf_ports rrh0 = free_port # [free_port]"
      by (simp add: make_rf_ports_2)
    have f: "antenna_panel free_port = None" by (simp add: free_port_def)
    from make_AntennaPanel_free[OF p f, of j s1] show ?thesis
      by (simp add: free_port_def)
  qed
  from A B show ?thesis by blast
qed

theorem make_AntennaPanel_no_rollback_witness:
  "panels_3 = (Inl PyException, fst (snd panels_3), snd (snd panels_3))
   \<and> guid_map (snd (snd panels_2)) 13 = None
   \<and> guid_map (snd (snd panels_3)) 13 = Some (panel_ref 13)
   \<and> registered (topology (snd (snd panels_3))) ''AntennaPanel'' 13
   \<and> RemoteRadioHead_init 10 None None None 2 fronthaul_default Sim_init = (Inr rrh10, sim_rrh10)
   \<and> fst (make_AntennaPanel rrh10 11 sim_rrh10) = Inr (fst (AntennaPanel_init 11 sim_rrh10))
   \<and> map antenna_panel (rf_ports (fst (snd (make_AntennaPanel rrh10 11 sim_rrh10))))
        = [Some (panel_ref 11), None]"
proof -
  have f: "fst panels_3 = Inl PyException"
    by (simp add: panels_3_eval)
  have a: "make_AntennaPanel (fst (snd panels_2)) 13 (snd (snd panels_2))
      = (Inl PyException, fst (snd panels_3), snd (snd panels_3))"
    using f by (simp add: panels_3_def prod_eq_iff)
  have b: "guid_map (snd (snd panels_2)) 13 = None"
    by (simp add: panels_2_eval)
  have c: "panels_3 = (Inl PyException, fst (snd panels_3), snd (snd panels_3))"
    using f by (simp add: prod_eq_iff)
  note T = make_AntennaPanel_no_rollback[of "fst (snd panels_2)" 13 "snd (snd panels_2)" PyException
      "fst (snd panels_3)" "snd (snd panels_3)" 10 None None None fronthaul_default Sim_init
      rrh10 sim_rrh10 11]
  have P: "guid_map (snd (snd panels_3)) 13 = Some (panel_ref 13)
       \<and> registered (topology (snd (snd panels_3))) ''AntennaPanel'' 13"
    by (rule T[THEN conjunct1, rule_format, OF a b])
  have Q: "fst (make_AntennaPanel rrh10 11 sim_rrh10) = Inr (fst (AntennaPanel_init 11 sim_rrh10))
   \<and> map antenna_panel (rf_ports (fst (snd (make_AntennaPanel rrh10 11 sim_rrh10))))
        = [Some (panel_ref 11), None]"
    by (rule T[THEN conjunct2, rule_format, OF rrh10_init])
  show ?thesis
    by (intro conjI c b P[THEN conjunct1] P[THEN conjunct2] rrh10_init Q[THEN conjunct1]
        Q[THEN conjunct2])
qed

text \<open>
  The claim as stated fails (C3): on a RemoteRadioHead built with \<^verbatim>\<open>n_rf_ports = 2\<close>
  (identity 10), the third \<^verbatim>\<open>make_AntennaPanel\<close> call (panel identity 13) fails, and the
  panel it made is nevertheless in the GUID map and in the topology, linked to the
  RemoteRadioHead.
\<close>

theorem port_capacity_counterexample:
  "fst (make_RemoteRadioHead 10 None None None 2 fronthaul_default Sim_init) = Inr rrh10
   \<and> fst panels_3 = Inl PyException
   \<and> guid_map (snd (snd panels_3)) 13 = Some (panel_ref 13)
   \<and> topo_get (topology (snd (snd panels_3))) ''AntennaPanel'' 13 = Some [10]"
  by (simp add: rrh10_made panels_3_eval topo_get_def)


end
